theory Spec2Isabelle
  imports Complex_Main "HOL-Library.Monad_Syntax"
begin

section \<open>Data model\<close>

text \<open>
  The string-valued enumerations of the program (\<^verbatim>\<open>'LONG'\<close>/\<^verbatim>\<open>'SHORT'\<close>, the three mode
  names that key \<^verbatim>\<open>config.modes\<close>, the status and close-reason columns) are datatypes.
  Prices held by the monitor are Python floats read as reals; a nullable column is an
  option. An instant (\<^verbatim>\<open>datetime\<close>) is a count of microseconds, and
  \<^verbatim>\<open>datetime.utcnow()\<close> is the parameter \<open>now\<close> of the function that reads the clock.
\<close>

datatype direction = LONG | SHORT

datatype mode = SCALPING | INTRADAY | SWING

datatype status = NEW | FILLED | CANCELLED | WIN | LOSE

datatype close_reason = TP | SL | TRAILING | EXPIRED | MANUAL | UNKNOWN

type_synonym datetime = int

definition minutes :: "int \<Rightarrow> int" where
  "minutes n = n * 60000000"

subsection \<open>config.py\<close>

record ModeConfig =
  name :: string
  primary_tf :: string
  confirm_tf :: string
  adx_min :: int
  volume_boost_min :: real
  sl_atr_mult :: real
  tp_atr_mult_min :: real
  tp_atr_mult_max :: real
  trailing_pct :: real
  score_min :: int
  order_validity_minutes :: int
  cooldown_minutes :: int

fun modes :: "mode \<Rightarrow> ModeConfig" where
  "modes SCALPING = \<lparr>name = ''SCALPING'', primary_tf = ''1m'', confirm_tf = ''5m'',
     adx_min = 22, volume_boost_min = 15 / 100, sl_atr_mult = 1, tp_atr_mult_min = 15 / 10,
     tp_atr_mult_max = 2, trailing_pct = 3 / 1000, score_min = 55,
     order_validity_minutes = 15, cooldown_minutes = 15\<rparr>"
| "modes INTRADAY = \<lparr>name = ''INTRADAY'', primary_tf = ''15m'', confirm_tf = ''1h'',
     adx_min = 20, volume_boost_min = 20 / 100, sl_atr_mult = 125 / 100, tp_atr_mult_min = 2,
     tp_atr_mult_max = 3, trailing_pct = 5 / 1000, score_min = 60,
     order_validity_minutes = 75, cooldown_minutes = 60\<rparr>"
| "modes SWING = \<lparr>name = ''SWING'', primary_tf = ''4h'', confirm_tf = ''1d'',
     adx_min = 18, volume_boost_min = 10 / 100, sl_atr_mult = 15 / 10, tp_atr_mult_min = 25 / 10,
     tp_atr_mult_max = 35 / 10, trailing_pct = 8 / 1000, score_min = 65,
     order_validity_minutes = 720, cooldown_minutes = 240\<rparr>"

subsection \<open>database.py\<close>

record signal =
  code :: string
  symbol :: string
  mode :: mode
  direction :: direction
  entry_price :: real
  stop_loss :: real
  take_profit :: real
  quantity :: real
  atr_value :: "real option"
  status :: status
  filled_at :: "datetime option"
  closed_at :: "datetime option"
  fill_price :: "real option"
  close_price :: "real option"
  close_reason :: "close_reason option"
  pnl_points :: "real option"
  pnl_percent :: "real option"
  pnl_usd :: "real option"
  validity_until :: "datetime option"

record execution =
  signal_code :: string
  execution_type :: string
  price :: real
  exec_quantity :: real

record cooldown =
  cd_symbol :: string
  cd_mode :: mode
  reason :: string
  cooldown_until :: datetime

text \<open>
  The store: the \<^verbatim>\<open>signals\<close> table keyed by its unique \<^verbatim>\<open>code\<close> column, the
  executions and the cooldowns. Every \<^verbatim>\<open>DatabaseManager\<close> method catches its own
  exceptions, so none of them raises to the monitor; the session itself is taken to work.
\<close>

record database =
  signals :: "string \<rightharpoonup> signal"
  executions :: "execution list"
  cooldowns :: "cooldown list"

text \<open>Python truthiness of an optional float: \<^verbatim>\<open>None\<close> and \<^verbatim>\<open>0.0\<close> are false.\<close>

fun truthy :: "real option \<Rightarrow> bool" where
  "truthy None = False"
| "truthy (Some x) = (x \<noteq> 0)"

text \<open>
  \<^verbatim>\<open>update_signal_status(code, status, **kwargs)\<close>: the keyword arguments
  \<^verbatim>\<open>fill_price\<close>, \<^verbatim>\<open>close_price\<close> and \<^verbatim>\<open>close_reason\<close> are options, \<open>None\<close>
  when the caller does not pass them. The close reason is stored only inside the
  \<^verbatim>\<open>'close_price' in kwargs\<close> branch.
\<close>

definition set_close :: "datetime \<Rightarrow> real \<Rightarrow> close_reason option \<Rightarrow> signal \<Rightarrow> signal" where
  "set_close now cp kw_reason s =
     (let s1 = s\<lparr>close_price := Some cp, closed_at := Some now,
                  close_reason := Some (case kw_reason of None \<Rightarrow> UNKNOWN | Some r \<Rightarrow> r)\<rparr>
      in if truthy (fill_price s1) then
           (let fp = the (fill_price s1);
                pts = (if direction s1 = LONG then cp - fp else fp - cp)
            in s1\<lparr>pnl_points := Some pts, pnl_percent := Some ((pts / fp) * 100),
                   pnl_usd := Some (pts * quantity s1)\<rparr>)
         else s1)"

definition update_signal_status ::
  "database \<Rightarrow> datetime \<Rightarrow> string \<Rightarrow> status \<Rightarrow> real option \<Rightarrow> real option \<Rightarrow>
   close_reason option \<Rightarrow> database" where
  "update_signal_status d now c st kw_fill kw_close kw_reason =
     (case signals d c of
        None \<Rightarrow> d
      | Some s \<Rightarrow>
          (let s1 = s\<lparr>status := st\<rparr>;
               s2 = (case kw_fill of None \<Rightarrow> s1
                     | Some fp \<Rightarrow> s1\<lparr>fill_price := Some fp, filled_at := Some now\<rparr>);
               s3 = (case kw_close of None \<Rightarrow> s2 | Some cp \<Rightarrow> set_close now cp kw_reason s2)
           in d\<lparr>signals := (signals d)(c \<mapsto> s3)\<rparr>))"

definition add_signal_execution :: "database \<Rightarrow> string \<Rightarrow> string \<Rightarrow> real \<Rightarrow> real \<Rightarrow> database" where
  "add_signal_execution d c ty p q =
     (case signals d c of
        None \<Rightarrow> d
      | Some s \<Rightarrow> d\<lparr>executions := executions d @
          [\<lparr>signal_code = c, execution_type = ty, price = p, exec_quantity = q\<rparr>]\<rparr>)"

definition add_cooldown :: "database \<Rightarrow> string \<Rightarrow> mode \<Rightarrow> string \<Rightarrow> datetime \<Rightarrow> database" where
  "add_cooldown d sy md why until =
     d\<lparr>cooldowns := filter (\<lambda>c. \<not> (cd_symbol c = sy \<and> cd_mode c = md)) (cooldowns d) @
          [\<lparr>cd_symbol = sy, cd_mode = md, reason = why, cooldown_until = until\<rparr>]\<rparr>"

subsection \<open>telegram\_bot.py: the notification queue\<close>

text \<open>
  \<^verbatim>\<open>queue_signal_result\<close> and \<^verbatim>\<open>queue_system_alert\<close> put a dictionary on an unbounded
  \<^verbatim>\<open>asyncio.Queue\<close>, which neither blocks nor raises.
\<close>

datatype notification =
    SignalResultNote string status "real option" real real
  | SystemAlert string string

section \<open>monitoring\_system.py: SignalMonitor\<close>

text \<open>
  \<^verbatim>\<open>active_signals\<close> is an insertion-ordered dictionary from code to the in-memory
  \<^verbatim>\<open>Signal\<close> object, which is detached from the store: a status written to the store
  does not change the object. A method that mutates the object it is given returns the
  updated object.
\<close>

record monitor =
  active_signals :: "(string \<times> signal) list"
  price_cache :: "string \<rightharpoonup> real"
  trailing_stops :: "string \<rightharpoonup> real"
  db :: database
  notification_queue :: "notification list"

text \<open>
  \<^verbatim>\<open>_initialize_trailing_stop\<close>: the product with a \<^verbatim>\<open>None\<close> ATR, or the sum with a
  \<^verbatim>\<open>None\<close> fill price, raises \<^verbatim>\<open>TypeError\<close>, which the handler logs; the map is then
  unchanged.
\<close>

definition initialize_trailing_stop :: "monitor \<Rightarrow> signal \<Rightarrow> monitor" where
  "initialize_trailing_stop m s =
     (case atr_value s of
        None \<Rightarrow> m
      | Some atr \<Rightarrow>
          (let trailing_distance = atr * sl_atr_mult (modes (mode s)) * (1 / 2)
           in case fill_price s of
                None \<Rightarrow> m
              | Some fp \<Rightarrow>
                  (if direction s = LONG
                   then m\<lparr>trailing_stops := (trailing_stops m)
                            (code s \<mapsto> max (fp - trailing_distance) (stop_loss s))\<rparr>
                   else m\<lparr>trailing_stops := (trailing_stops m)
                            (code s \<mapsto> min (fp + trailing_distance) (stop_loss s))\<rparr>)))"

definition is_entry_hit :: "signal \<Rightarrow> real \<Rightarrow> bool" where
  "is_entry_hit s current_price =
     (let tolerance = 1 / 1000
      in if direction s = LONG then current_price \<le> entry_price s * (1 + tolerance)
         else current_price \<ge> entry_price s * (1 - tolerance))"

definition is_take_profit_hit :: "signal \<Rightarrow> real \<Rightarrow> bool" where
  "is_take_profit_hit s current_price =
     (if direction s = LONG then current_price \<ge> take_profit s
      else current_price \<le> take_profit s)"

definition is_stop_loss_hit :: "signal \<Rightarrow> real \<Rightarrow> bool" where
  "is_stop_loss_hit s current_price =
     (if direction s = LONG then current_price \<le> stop_loss s
      else current_price \<ge> stop_loss s)"

definition is_trailing_stop_hit :: "monitor \<Rightarrow> signal \<Rightarrow> real \<Rightarrow> bool" where
  "is_trailing_stop_hit m s current_price =
     (if \<not> truthy (trailing_stops m (code s)) then False
      else (let trailing_stop = the (trailing_stops m (code s))
            in if direction s = LONG then current_price \<le> trailing_stop
               else current_price \<ge> trailing_stop))"

definition update_trailing_stop :: "monitor \<Rightarrow> signal \<Rightarrow> real \<Rightarrow> monitor" where
  "update_trailing_stop m s current_price =
     (case trailing_stops m (code s) of
        None \<Rightarrow> m
      | Some current_trailing \<Rightarrow>
          (let trailing_distance = current_price * trailing_pct (modes (mode s))
           in if direction s = LONG
              then (let new_trailing = current_price - trailing_distance
                    in if new_trailing > current_trailing
                       then m\<lparr>trailing_stops := (trailing_stops m)(code s \<mapsto> new_trailing)\<rparr>
                       else m)
              else (let new_trailing = current_price + trailing_distance
                    in if new_trailing < current_trailing
                       then m\<lparr>trailing_stops := (trailing_stops m)(code s \<mapsto> new_trailing)\<rparr>
                       else m)))"

definition handle_signal_expired :: "monitor \<Rightarrow> datetime \<Rightarrow> signal \<Rightarrow> monitor" where
  "handle_signal_expired m now s =
     m\<lparr>db := update_signal_status (db m) now (code s) CANCELLED None None (Some EXPIRED),
       notification_queue := notification_queue m @
         [SystemAlert ''INFO''
            (''Signal '' @ code s @ '' ('' @ symbol s @ '') expired without entry'')]\<rparr>"

definition handle_signal_filled :: "monitor \<Rightarrow> datetime \<Rightarrow> signal \<Rightarrow> real \<Rightarrow> monitor \<times> signal" where
  "handle_signal_filled m now s fp =
     (let m1 = m\<lparr>db := update_signal_status (db m) now (code s) FILLED (Some fp) None None\<rparr>;
          s1 = s\<lparr>status := FILLED, fill_price := Some fp, filled_at := Some now\<rparr>;
          m2 = initialize_trailing_stop m1 s1;
          m3 = m2\<lparr>db := add_signal_execution (db m2) (code s1) ''ENTRY'' fp (quantity s1)\<rparr>
      in (m3, s1))"

definition handle_take_profit :: "monitor \<Rightarrow> datetime \<Rightarrow> signal \<Rightarrow> real \<Rightarrow> monitor" where
  "handle_take_profit m now s cp =
     (let d1 = update_signal_status (db m) now (code s) WIN None (Some cp) (Some TP);
          d2 = add_signal_execution d1 (code s) ''TP'' cp (quantity s)
      in m\<lparr>db := d2,
           notification_queue := notification_queue m @
             [SignalResultNote (code s) WIN (fill_price s) cp (quantity s)]\<rparr>)"

definition handle_stop_loss :: "monitor \<Rightarrow> datetime \<Rightarrow> signal \<Rightarrow> real \<Rightarrow> monitor" where
  "handle_stop_loss m now s cp =
     (let d1 = update_signal_status (db m) now (code s) LOSE None (Some cp) (Some SL);
          d2 = add_signal_execution d1 (code s) ''SL'' cp (quantity s);
          q = notification_queue m @ [SignalResultNote (code s) LOSE (fill_price s) cp (quantity s)];
          until = now + minutes (cooldown_minutes (modes (mode s)));
          d3 = add_cooldown d2 (symbol s) (mode s) ''LOSS'' until
      in m\<lparr>db := d3, notification_queue := q\<rparr>)"

definition was_profitable_before_trailing :: "monitor \<Rightarrow> signal \<Rightarrow> bool" where
  "was_profitable_before_trailing m s =
     (let t = (case trailing_stops m (code s) of None \<Rightarrow> stop_loss s | Some v \<Rightarrow> v)
      in if direction s = LONG then t > stop_loss s else t < stop_loss s)"

definition handle_trailing_stop :: "monitor \<Rightarrow> datetime \<Rightarrow> signal \<Rightarrow> real \<Rightarrow> monitor" where
  "handle_trailing_stop m now s cp =
     (let result_type = (if was_profitable_before_trailing m s then WIN else LOSE);
          d1 = update_signal_status (db m) now (code s) result_type None (Some cp) (Some TRAILING);
          d2 = add_signal_execution d1 (code s) ''TRAILING'' cp (quantity s)
      in m\<lparr>db := d2,
           notification_queue := notification_queue m @
             [SignalResultNote (code s) result_type (fill_price s) cp (quantity s)]\<rparr>)"

text \<open>
  \<^verbatim>\<open>_check_signal_status\<close> returns whether the signal is completed, with the monitor
  and the signal object as it leaves them. Comparing the clock with a \<^verbatim>\<open>None\<close>
  deadline raises \<^verbatim>\<open>TypeError\<close>; the handler returns \<^verbatim>\<open>False\<close>.
\<close>

definition check_signal_status :: "monitor \<Rightarrow> datetime \<Rightarrow> signal \<Rightarrow> bool \<times> monitor \<times> signal" where
  "check_signal_status m now s =
     (if \<not> truthy (price_cache m (symbol s)) then (False, m, s)
      else
        (let current_price = the (price_cache m (symbol s))
         in if status s = NEW then
              (case validity_until s of
                 None \<Rightarrow> (False, m, s)
               | Some deadline \<Rightarrow>
                   if now > deadline then (True, handle_signal_expired m now s, s)
                   else if is_entry_hit s current_price
                   then (case handle_signal_filled m now s current_price of
                           (m', s') \<Rightarrow> (False, m', s'))
                   else (False, m, s))
            else if status s = FILLED then
              (if is_take_profit_hit s current_price
               then (True, handle_take_profit m now s current_price, s)
               else if code s \<in> dom (trailing_stops m) then
                 (if is_trailing_stop_hit m s current_price
                  then (True, handle_trailing_stop m now s current_price, s)
                  else (False, update_trailing_stop m s current_price, s))
               else if is_stop_loss_hit s current_price
               then (True, handle_stop_loss m now s current_price, s)
               else (False, m, s))
            else (False, m, s)))"

text \<open>
  One pass of the body of \<^verbatim>\<open>_monitor_signals\<close>: every active signal is checked in
  dictionary order, then the completed ones are removed from \<^verbatim>\<open>active_signals\<close> and
  from \<^verbatim>\<open>trailing_stops\<close>.
\<close>

fun check_each :: "datetime \<Rightarrow> (string \<times> signal) list \<Rightarrow> monitor \<Rightarrow>
    (string \<times> signal) list \<times> string list \<times> monitor" where
  "check_each now [] m = ([], [], m)"
| "check_each now ((c, s) # rest) m =
     (case check_signal_status m now s of
        (result, m1, s1) \<Rightarrow>
          (case check_each now rest m1 of
             (kept, signals_to_remove, m2) \<Rightarrow>
               ((c, s1) # kept, (if result then c # signals_to_remove else signals_to_remove), m2)))"

definition monitor_signals_pass :: "monitor \<Rightarrow> datetime \<Rightarrow> monitor" where
  "monitor_signals_pass m now =
     (case check_each now (active_signals m) m of
        (objs, signals_to_remove, m1) \<Rightarrow>
          m1\<lparr>active_signals := filter (\<lambda>(c, s). c \<notin> set signals_to_remove) objs,
             trailing_stops := (\<lambda>c. if c \<in> set signals_to_remove then None
                                     else trailing_stops m1 c)\<rparr>)"

text \<open>
  One pass of the body of \<^verbatim>\<open>_check_expired_signals\<close>: the expired signals are
  collected, then each is handled; nothing is removed from \<^verbatim>\<open>active_signals\<close> and
  the objects keep their status.
\<close>

definition expired_signals :: "monitor \<Rightarrow> datetime \<Rightarrow> signal list" where
  "expired_signals m current_time =
     map snd (filter (\<lambda>(c, s). status s = NEW \<and>
        (case validity_until s of None \<Rightarrow> False | Some deadline \<Rightarrow> current_time > deadline))
        (active_signals m))"

definition check_expired_signals_pass :: "monitor \<Rightarrow> datetime \<Rightarrow> monitor" where
  "check_expired_signals_pass m current_time =
     foldl (\<lambda>m' s. handle_signal_expired m' current_time s) m (expired_signals m current_time)"

section \<open>Floats and frames\<close>

text \<open>
  A cell of a pandas frame is a float that may be NaN. Arithmetic propagates NaN and
  every comparison with NaN is false, as in IEEE 754; the finite values are reals.
\<close>

datatype pyfloat = NaN | Num real

fun isna :: "pyfloat \<Rightarrow> bool" where
  "isna NaN = True"
| "isna (Num x) = False"

definition notna :: "pyfloat \<Rightarrow> bool" where
  "notna x = (\<not> isna x)"

fun fadd :: "pyfloat \<Rightarrow> pyfloat \<Rightarrow> pyfloat" where
  "fadd (Num x) (Num y) = Num (x + y)"
| "fadd _ _ = NaN"

fun fsub :: "pyfloat \<Rightarrow> pyfloat \<Rightarrow> pyfloat" where
  "fsub (Num x) (Num y) = Num (x - y)"
| "fsub _ _ = NaN"

fun fmul :: "pyfloat \<Rightarrow> pyfloat \<Rightarrow> pyfloat" where
  "fmul (Num x) (Num y) = Num (x * y)"
| "fmul _ _ = NaN"

fun fabs :: "pyfloat \<Rightarrow> pyfloat" where
  "fabs (Num x) = Num \<bar>x\<bar>"
| "fabs NaN = NaN"

fun flt :: "pyfloat \<Rightarrow> pyfloat \<Rightarrow> bool" where
  "flt (Num x) (Num y) = (x < y)"
| "flt _ _ = False"

fun fle :: "pyfloat \<Rightarrow> pyfloat \<Rightarrow> bool" where
  "fle (Num x) (Num y) = (x \<le> y)"
| "fle _ _ = False"

definition fgt :: "pyfloat \<Rightarrow> pyfloat \<Rightarrow> bool" where
  "fgt x y = flt y x"

definition fge :: "pyfloat \<Rightarrow> pyfloat \<Rightarrow> bool" where
  "fge x y = fle y x"

fun feq :: "pyfloat \<Rightarrow> pyfloat \<Rightarrow> bool" where
  "feq (Num x) (Num y) = (x = y)"
| "feq _ _ = False"

text \<open>
  \<^verbatim>\<open>a / b <= c\<close> for a quotient of NumPy floats with \<open>a\<close> not negative: division
  by zero does not raise, it yields \<^verbatim>\<open>inf\<close> or \<^verbatim>\<open>nan\<close>, and neither is below a finite
  bound.
\<close>

fun quotient_le :: "pyfloat \<Rightarrow> pyfloat \<Rightarrow> real \<Rightarrow> bool" where
  "quotient_le (Num a) (Num b) c = (b \<noteq> 0 \<and> a / b \<le> c)"
| "quotient_le _ _ c = False"

text \<open>Truthiness of a float: only zero is false, NaN is true.\<close>

fun ftruthy :: "pyfloat \<Rightarrow> bool" where
  "ftruthy (Num x) = (x \<noteq> 0)"
| "ftruthy NaN = True"

text \<open>
  \<^verbatim>\<open>round(x, 6)\<close>: to six decimals, ties to the even neighbour; NaN stays NaN.
\<close>

definition rint :: "real \<Rightarrow> int" where
  "rint x = (let f = \<lfloor>x\<rfloor>; r = x - of_int f
             in if r < 1 / 2 then f else if r > 1 / 2 then f + 1
                else if even f then f else f + 1)"

fun round6 :: "pyfloat \<Rightarrow> pyfloat" where
  "round6 (Num x) = Num (of_int (rint (x * 1000000)) / 1000000)"
| "round6 NaN = NaN"

text \<open>
  The arithmetic of doubles. An operation on two finite doubles returns the exact result
  rounded to the nearest double, ties to the even neighbour. A double has 53 significant
  bits: the doubles around \<open>x\<close> are the multiples of \<open>ulp x\<close>, the unit in the last place
  of the binade (from a power of two to the next) that holds the magnitude of \<open>x\<close>, and
  below \<^verbatim>\<open>2**-1022\<close> the spacing stays that of the subnormals, \<^verbatim>\<open>2**-1074\<close>. A
  result beyond the largest double is an infinity in Python; the model has no infinities
  and keeps the rounded value.
\<close>

definition binade :: "real \<Rightarrow> int" where
  "binade x = max \<lfloor>log 2 \<bar>x\<bar>\<rfloor> (- 1022)"

definition ulp :: "real \<Rightarrow> real" where
  "ulp x = 2 powr (of_int (binade x) - 52)"

definition round_double :: "real \<Rightarrow> real" where
  "round_double x = (if x = 0 then 0 else of_int (rint (x / ulp x)) * ulp x)"

text \<open>
  The rounded operations \<^verbatim>\<open>+\<close>, \<^verbatim>\<open>-\<close> and \<^verbatim>\<open>*\<close>; \<open>fadd\<close>, \<open>fsub\<close> and \<open>fmul\<close> above are
  the exact ones.
\<close>

fun rounded :: "pyfloat \<Rightarrow> pyfloat" where
  "rounded (Num x) = Num (round_double x)"
| "rounded NaN = NaN"

definition radd :: "pyfloat \<Rightarrow> pyfloat \<Rightarrow> pyfloat" where
  "radd x y = rounded (fadd x y)"

definition rsub :: "pyfloat \<Rightarrow> pyfloat \<Rightarrow> pyfloat" where
  "rsub x y = rounded (fsub x y)"

definition rmul :: "pyfloat \<Rightarrow> pyfloat \<Rightarrow> pyfloat" where
  "rmul x y = rounded (fmul x y)"

text \<open>
  A row (\<^verbatim>\<open>df.iloc[-1]\<close>) maps column names to cells; a frame is the list of its rows,
  oldest first. A computation that may raise has an option type, \<open>None\<close> standing for the
  exception: every handler in the program is \<^verbatim>\<open>except Exception\<close>, so the kind of
  exception (\<^verbatim>\<open>KeyError\<close> for a missing column, \<^verbatim>\<open>IndexError\<close> for a missing row,
  \<^verbatim>\<open>TypeError\<close>) never matters.
\<close>

type_synonym row = "string \<rightharpoonup> pyfloat"

type_synonym frame = "row list"

definition try_except :: "'a option \<Rightarrow> 'a \<Rightarrow> 'a" where
  "try_except body handler = (case body of None \<Rightarrow> handler | Some v \<Rightarrow> v)"

text \<open>\<^verbatim>\<open>xs.iloc[-k]\<close>, for a frame or a column.\<close>

definition iloc :: "'a list \<Rightarrow> nat \<Rightarrow> 'a option" where
  "iloc xs k = (if 0 < k \<and> k \<le> length xs then Some (xs ! (length xs - k)) else None)"

text \<open>\<^verbatim>\<open>df[c]\<close>: the column, when every row has it.\<close>

definition column :: "frame \<Rightarrow> string \<Rightarrow> pyfloat list option" where
  "column df c = (if list_all (\<lambda>r. r c \<noteq> None) df then Some (map (\<lambda>r. the (r c)) df) else None)"

definition tail :: "nat \<Rightarrow> 'a list \<Rightarrow> 'a list" where
  "tail n xs = drop (length xs - n) xs"

text \<open>\<^verbatim>\<open>Series.max()\<close>, \<^verbatim>\<open>min()\<close> and \<^verbatim>\<open>mean()\<close> skip NaN and are NaN on nothing.\<close>

fun finite_values :: "pyfloat list \<Rightarrow> real list" where
  "finite_values [] = []"
| "finite_values (NaN # xs) = finite_values xs"
| "finite_values (Num x # xs) = x # finite_values xs"

definition series_max :: "pyfloat list \<Rightarrow> pyfloat" where
  "series_max xs = (case finite_values xs of [] \<Rightarrow> NaN | y # ys \<Rightarrow> Num (foldl max y ys))"

definition series_min :: "pyfloat list \<Rightarrow> pyfloat" where
  "series_min xs = (case finite_values xs of [] \<Rightarrow> NaN | y # ys \<Rightarrow> Num (foldl min y ys))"

definition series_mean :: "pyfloat list \<Rightarrow> pyfloat" where
  "series_mean xs = (case finite_values xs of [] \<Rightarrow> NaN
                     | y # ys \<Rightarrow> Num (sum_list (y # ys) / of_nat (length (y # ys))))"

section \<open>indicators.py\<close>

datatype bias = Bias direction | NEUTRAL

record fib_levels =
  fib_100 :: pyfloat
  fib_786 :: pyfloat
  fib_618 :: pyfloat
  fib_500 :: pyfloat
  fib_382 :: pyfloat
  fib_236 :: pyfloat
  fib_000 :: pyfloat

definition fibonacci_retracement :: "pyfloat \<Rightarrow> pyfloat \<Rightarrow> fib_levels" where
  "fibonacci_retracement high_price low_price =
     (let diff = fsub high_price low_price
      in \<lparr>fib_100 = high_price,
          fib_786 = fsub high_price (fmul (Num (786 / 1000)) diff),
          fib_618 = fsub high_price (fmul (Num (618 / 1000)) diff),
          fib_500 = fsub high_price (fmul (Num (500 / 1000)) diff),
          fib_382 = fsub high_price (fmul (Num (382 / 1000)) diff),
          fib_236 = fsub high_price (fmul (Num (236 / 1000)) diff),
          fib_000 = low_price\<rparr>)"

text \<open>
  \<^verbatim>\<open>get_trend_bias\<close>. A cell is read only where the source reads it: the close only
  once the average (or both cloud lines) is known not to be NaN.
\<close>

definition side_of :: "row \<Rightarrow> pyfloat \<Rightarrow> pyfloat \<Rightarrow> bias option" where
  "side_of latest upper lower =
     do { close \<leftarrow> latest ''close'';
          Some (if fgt close upper then Bias LONG
                else if flt close lower then Bias SHORT else NEUTRAL) }"

definition get_trend_bias :: "frame \<Rightarrow> mode \<Rightarrow> bias" where
  "get_trend_bias df md = try_except
     (do { latest \<leftarrow> iloc df 1;
           ema_200 \<leftarrow> latest ''ema_200'';
           ema_bias \<leftarrow> (if notna ema_200 then side_of latest ema_200 ema_200 else Some NEUTRAL);
           cloud_bias \<leftarrow>
             (if md = SWING then
                do { a \<leftarrow> latest ''senkou_span_a'';
                     if notna a then
                       do { b \<leftarrow> latest ''senkou_span_b'';
                            if notna b then
                              (let cloud_top = (if fgt b a then b else a);
                                   cloud_bottom = (if flt b a then b else a)
                               in side_of latest cloud_top cloud_bottom)
                            else Some NEUTRAL }
                     else Some NEUTRAL }
              else Some NEUTRAL);
           Some (if md = SWING then
                   (if ema_bias = Bias LONG \<and> cloud_bias = Bias LONG then Bias LONG
                    else if ema_bias = Bias SHORT \<and> cloud_bias = Bias SHORT then Bias SHORT
                    else NEUTRAL)
                 else ema_bias) })
     NEUTRAL"

definition check_volume_boost :: "frame \<Rightarrow> real \<Rightarrow> bool \<times> pyfloat" where
  "check_volume_boost df min_boost = try_except
     (do { latest \<leftarrow> iloc df 1;
           volume_ratio \<leftarrow> latest ''volume_ratio'';
           if isna volume_ratio then Some (False, Num 0)
           else (let boost_ratio = fsub volume_ratio (Num 1);
                     has_boost = fge boost_ratio (Num min_boost)
                 in Some (has_boost, boost_ratio)) })
     (False, Num 0)"

text \<open>
  \<^verbatim>\<open>detect_ema_retest\<close>: \<open>ema_col\<close> is the column name \<^verbatim>\<open>f'ema_{ema_period}'\<close>; the
  callers pass the period 50.
\<close>

definition detect_ema_retest :: "frame \<Rightarrow> string \<Rightarrow> real \<Rightarrow> bool" where
  "detect_ema_retest df ema_col tolerance = try_except
     (do { latest \<leftarrow> iloc df 1;
           case latest ema_col of
             None \<Rightarrow> Some False
           | Some ema_value \<Rightarrow>
               if isna ema_value then Some False
               else do { price \<leftarrow> latest ''close'';
                         Some (quotient_le (fabs (fsub price ema_value)) ema_value tolerance) } })
     False"

definition detect_rsi_cross :: "frame \<Rightarrow> string \<Rightarrow> bool" where
  "detect_rsi_cross df dir = try_except
     (if length df < 2 then Some False
      else do { rsi \<leftarrow> column df ''rsi'';
                current_rsi \<leftarrow> iloc rsi 1;
                previous_rsi \<leftarrow> iloc rsi 2;
                if isna current_rsi \<or> isna previous_rsi then Some False
                else if dir = ''up''
                then Some (fle previous_rsi (Num 50) \<and> fgt current_rsi (Num 50))
                else Some (fge previous_rsi (Num 50) \<and> flt current_rsi (Num 50)) })
     False"

definition detect_stoch_rsi_signal :: "frame \<Rightarrow> string \<Rightarrow> bool" where
  "detect_stoch_rsi_signal df signal_type = try_except
     (if length df < 3 then Some False
      else do { ks \<leftarrow> column df ''stoch_rsi_k'';
                current_k \<leftarrow> iloc ks 1;
                previous_k \<leftarrow> iloc ks 2;
                if isna current_k \<or> isna previous_k then Some False
                else if signal_type = ''long''
                then Some ((fle previous_k (Num 20) \<and> fgt current_k (Num 20)) \<and>
                           fgt current_k previous_k)
                else Some ((fge previous_k (Num 80) \<and> flt current_k (Num 80)) \<and>
                           flt current_k previous_k) })
     False"

definition detect_macd_cross :: "frame \<Rightarrow> string \<Rightarrow> bool" where
  "detect_macd_cross df dir = try_except
     (if length df < 2 then Some False
      else do { macd \<leftarrow> column df ''macd_line'';
                sig \<leftarrow> column df ''macd_signal'';
                current_macd \<leftarrow> iloc macd 1;
                current_signal \<leftarrow> iloc sig 1;
                previous_macd \<leftarrow> iloc macd 2;
                previous_signal \<leftarrow> iloc sig 2;
                if isna current_macd \<or> isna current_signal \<or> isna previous_macd \<or>
                   isna previous_signal then Some False
                else if dir = ''up''
                then Some (fle previous_macd previous_signal \<and> fgt current_macd current_signal)
                else Some (fge previous_macd previous_signal \<and> flt current_macd current_signal) })
     False"

section \<open>signal\_engine.py: SignalEngine\<close>

text \<open>
  The part of \<^verbatim>\<open>Config\<close> that the engine reads; the values come from the environment.
\<close>

record Config =
  initial_equity :: real
  risk_per_trade :: real
  daily_loss_cap :: real
  max_concurrent_signals :: int

datatype confidence = HIGH | MEDIUM | LOW

subsection \<open>Confluence checks\<close>

definition check_bb_confluence :: "frame \<Rightarrow> direction \<Rightarrow> bool" where
  "check_bb_confluence df d = try_except
     (do { latest \<leftarrow> iloc df 1;
           close \<leftarrow> latest ''close'';
           if d = LONG then
             do { bb_lower \<leftarrow> latest ''bb_lower'';
                  if fle close (fmul bb_lower (Num (101 / 100)))
                  then do { bb_pband \<leftarrow> latest ''bb_pband''; Some (fle bb_pband (Num (2 / 10))) }
                  else Some False }
           else
             do { bb_upper \<leftarrow> latest ''bb_upper'';
                  if fge close (fmul bb_upper (Num (99 / 100)))
                  then do { bb_pband \<leftarrow> latest ''bb_pband''; Some (fge bb_pband (Num (8 / 10))) }
                  else Some False } })
     False"

definition check_fib_confluence :: "frame \<Rightarrow> direction \<Rightarrow> bool" where
  "check_fib_confluence df d = try_except
     (do { latest \<leftarrow> iloc df 1;
           highs \<leftarrow> column (tail 20 df) ''high'';
           lows \<leftarrow> column (tail 20 df) ''low'';
           current_price \<leftarrow> latest ''close'';
           (let swing_high = series_max highs;
                swing_low = series_min lows;
                levels = fibonacci_retracement swing_high swing_low
            in Some (fle (fib_618 levels) current_price \<and> fle current_price (fib_500 levels))) })
     False"

definition check_rsi_healthy :: "row \<Rightarrow> direction \<Rightarrow> bool" where
  "check_rsi_healthy latest_data d = try_except
     (do { rsi \<leftarrow> latest_data ''rsi'';
           if isna rsi then Some False
           else Some (fle (Num 30) rsi \<and> fle rsi (Num 70)) })
     False"

definition check_obv_alignment :: "frame \<Rightarrow> direction \<Rightarrow> bool" where
  "check_obv_alignment df d = try_except
     (if length df < 5 then Some False
      else do { obv \<leftarrow> column df ''obv'';
                newest \<leftarrow> iloc (tail 5 obv) 1;
                oldest \<leftarrow> iloc (tail 5 obv) 5;
                Some (if d = LONG then fgt newest oldest else flt newest oldest) })
     False"

definition check_volume_profile_confluence :: "frame \<Rightarrow> direction \<Rightarrow> bool" where
  "check_volume_profile_confluence df d = try_except
     (do { volume \<leftarrow> column df ''volume'';
           current_volume \<leftarrow> iloc volume 1;
           (let recent_volume = series_mean (tail 10 volume)
            in Some (fgt current_volume (fmul recent_volume (Num (12 / 10))))) })
     False"

text \<open>
  \<^verbatim>\<open>pd.notna(r['macd_line']) and r['macd_line'] > r['macd_signal']\<close> (for SHORT with
  \<^verbatim>\<open><\<close>): the signal line is read only when the MACD line is not NaN.
\<close>

definition macd_momentum :: "row \<Rightarrow> direction \<Rightarrow> bool option" where
  "macd_momentum r d =
     do { macd_line \<leftarrow> r ''macd_line'';
          if notna macd_line then
            do { macd_signal \<leftarrow> r ''macd_signal'';
                 Some (if d = LONG then fgt macd_line macd_signal else flt macd_line macd_signal) }
          else Some False }"

definition check_swing_confluence :: "frame \<Rightarrow> frame \<Rightarrow> direction \<Rightarrow> bool" where
  "check_swing_confluence primary_df confirm_df d = try_except
     (do { primary_latest \<leftarrow> iloc primary_df 1;
           confirm_latest \<leftarrow> iloc confirm_df 1;
           primary_aligned \<leftarrow> macd_momentum primary_latest d;
           confirm_aligned \<leftarrow> macd_momentum confirm_latest d;
           Some (primary_aligned \<and> confirm_aligned) })
     False"

subsection \<open>Entry, stop-loss, take-profit, quantity\<close>

text \<open>
  \<^verbatim>\<open>_calculate_entry_price\<close> returns an optional float; \<open>None\<close> is Python's \<^verbatim>\<open>None\<close>,
  which its handler returns.
\<close>

definition calculate_entry_price :: "frame \<Rightarrow> direction \<Rightarrow> mode \<Rightarrow> pyfloat option" where
  "calculate_entry_price df d md =
     do { latest \<leftarrow> iloc df 1;
          current_price \<leftarrow> latest ''close'';
          case md of
            SCALPING \<Rightarrow>
              do { ema_50 \<leftarrow> latest ''ema_50'';
                   if notna ema_50 \<and>
                      quotient_le (fabs (fsub current_price ema_50)) current_price (2 / 1000)
                   then Some ema_50 else Some current_price }
          | INTRADAY \<Rightarrow>
              do { ema_50 \<leftarrow> latest ''ema_50'';
                   if notna ema_50 then Some ema_50 else Some current_price }
          | SWING \<Rightarrow> Some current_price }"

text \<open>
  \<^verbatim>\<open>_calculate_sl_tp\<close>, in the arithmetic of doubles: each product, sum and difference
  is rounded, and the literals \<^verbatim>\<open>0.98\<close> and \<^verbatim>\<open>1.02\<close> of the handler are the doubles
  nearest to them.
\<close>

definition calculate_sl_tp :: "frame \<Rightarrow> pyfloat \<Rightarrow> direction \<Rightarrow> ModeConfig \<Rightarrow> pyfloat \<times> pyfloat" where
  "calculate_sl_tp df entry d mode_config = try_except
     (do { latest \<leftarrow> iloc df 1;
           atr \<leftarrow> latest ''atr'';
           if d = LONG
           then Some (rsub entry (rmul atr (Num (sl_atr_mult mode_config))),
                      radd entry (rmul atr (Num (tp_atr_mult_min mode_config))))
           else Some (radd entry (rmul atr (Num (sl_atr_mult mode_config))),
                      rsub entry (rmul atr (Num (tp_atr_mult_min mode_config)))) })
     (rmul entry (Num (round_double (98 / 100))), rmul entry (Num (round_double (102 / 100))))"

text \<open>
  \<^verbatim>\<open>_calculate_quantity\<close>: the body of its \<^verbatim>\<open>try\<close>, then the function with its
  handler. The division is reached only with a stop distance that is not zero.
\<close>

definition calculate_quantity_body :: "Config \<Rightarrow> string \<Rightarrow> pyfloat \<Rightarrow> pyfloat \<Rightarrow> pyfloat option" where
  "calculate_quantity_body cfg sy entry sl =
     (let risk_amount = initial_equity cfg * risk_per_trade cfg;
          stop_distance = fabs (fsub entry sl)
      in if feq stop_distance (Num 0) then Some (Num 0)
         else (case stop_distance of
                 NaN \<Rightarrow> Some (round6 NaN)
               | Num sd \<Rightarrow> Some (round6 (Num (risk_amount / sd)))))"

definition calculate_quantity :: "Config \<Rightarrow> string \<Rightarrow> pyfloat \<Rightarrow> pyfloat \<Rightarrow> pyfloat" where
  "calculate_quantity cfg sy entry sl =
     try_except (calculate_quantity_body cfg sy entry sl) (Num (1 / 1000))"

definition get_confidence_level :: "int \<Rightarrow> confidence" where
  "get_confidence_level score =
     (if score \<ge> 80 then HIGH else if score \<ge> 65 then MEDIUM else LOW)"

subsection \<open>SignalResult\<close>

text \<open>
  \<^verbatim>\<open>SignalResult\<close> is a dataclass of seventeen fields, none with a default value, so
  its generated constructor requires all of them. The first fifteen are the ones the
  detectors pass.
\<close>

record candidate =
  sr_symbol :: string
  sr_mode :: mode
  sr_direction :: direction
  sr_entry_price :: pyfloat
  sr_stop_loss :: pyfloat
  sr_take_profit :: pyfloat
  sr_quantity :: pyfloat
  sr_score :: int
  sr_confidence :: confidence
  sr_trend_note :: string
  sr_adx_value :: pyfloat
  sr_volume_boost :: pyfloat
  sr_atr_value :: pyfloat
  sr_code :: string
  sr_timestamp :: datetime

record SignalResult = candidate +
  sr_primary_tf_data :: frame
  sr_confirm_tf_data :: frame

text \<open>
  The constructor call with the keyword arguments \<open>kw\<close> and, when they are passed,
  \<^verbatim>\<open>primary_tf_data\<close> and \<^verbatim>\<open>confirm_tf_data\<close>. A call without one of them raises
  \<^verbatim>\<open>TypeError\<close> (missing required argument).
\<close>

fun SignalResult_init :: "candidate \<Rightarrow> frame option \<Rightarrow> frame option \<Rightarrow> SignalResult option" where
  "SignalResult_init kw (Some p) (Some c) =
     Some (candidate.extend kw (SignalResult.fields p c))"
| "SignalResult_init kw _ _ = None"

text \<open>
  What a detector reads besides its arguments: the configuration, the clock
  (\<^verbatim>\<open>datetime.now()\<close>) and the code that \<^verbatim>\<open>_generate_signal_code\<close> draws.
\<close>

record environment =
  config :: Config
  clock :: datetime
  generated_code :: string

fun bias_lower :: "bias \<Rightarrow> string" where
  "bias_lower (Bias LONG) = ''long''"
| "bias_lower (Bias SHORT) = ''short''"
| "bias_lower NEUTRAL = ''neutral''"

text \<open>The arrows of the trend notes, in UTF-8.\<close>

definition up_arrow :: string where
  "up_arrow = [CHR 0xE2, CHR 0x86, CHR 0x91]"

definition down_arrow :: string where
  "down_arrow = [CHR 0xE2, CHR 0x86, CHR 0x93]"

subsection \<open>The scoring loop\<close>

text \<open>
  The three detectors share the loop \<^verbatim>\<open>for direction in ['LONG', 'SHORT']\<close>: the score of
  the direction is accumulated; if it reaches \<^verbatim>\<open>score_min\<close> the entry price is computed,
  and if that is truthy the stop-loss, take-profit, quantity and note are computed and
  \<^verbatim>\<open>SignalResult(...)\<close> is called, which ends the loop. The result is \<open>None\<close> when
  something raised on the way, \<open>Some None\<close> when the loop ran out of directions, and
  \<open>Some (Some kw)\<close> when the constructor call is reached with the keyword arguments \<open>kw\<close>.
\<close>

fun direction_loop :: "(direction \<Rightarrow> int option) \<Rightarrow> int \<Rightarrow> (direction \<Rightarrow> pyfloat option) \<Rightarrow>
    (direction \<Rightarrow> int \<Rightarrow> pyfloat \<Rightarrow> candidate option) \<Rightarrow> direction list \<Rightarrow> candidate option option" where
  "direction_loop score_of minimum entry_of build [] = Some None"
| "direction_loop score_of minimum entry_of build (d # ds) =
     (case score_of d of
        None \<Rightarrow> None
      | Some score \<Rightarrow>
          if score \<ge> minimum then
            (case entry_of d of
               None \<Rightarrow> direction_loop score_of minimum entry_of build ds
             | Some entry \<Rightarrow>
                 if ftruthy entry then map_option Some (build d score entry)
                 else direction_loop score_of minimum entry_of build ds)
          else direction_loop score_of minimum entry_of build ds)"

text \<open>
  The end of a detector: the constructor is called without the two frames, and the
  detector's handler turns what is raised into \<^verbatim>\<open>None\<close>.
\<close>

definition construct :: "candidate option option \<Rightarrow> SignalResult option" where
  "construct attempt = try_except
     (do { reached \<leftarrow> attempt;
           case reached of
             None \<Rightarrow> Some None
           | Some kw \<Rightarrow> map_option Some (SignalResult_init kw None None) })
     None"

definition bonus :: "bool \<Rightarrow> int \<Rightarrow> int" where
  "bonus met weight = (if met then weight else 0)"

subsection \<open>Scalping\<close>

definition scalping_score :: "frame \<Rightarrow> pyfloat \<Rightarrow> ModeConfig \<Rightarrow> bias \<Rightarrow> bool \<Rightarrow> direction \<Rightarrow> int" where
  "scalping_score primary_df adx mode_config trend_bias volume_valid d =
     bonus (trend_bias = Bias d) 20 +
     bonus (fge adx (Num (of_int (adx_min mode_config)))) 10 +
     bonus (detect_rsi_cross primary_df (if d = LONG then ''up'' else ''down'')) 10 +
     bonus (detect_stoch_rsi_signal primary_df (if d = LONG then ''long'' else ''short'')) 10 +
     bonus volume_valid 10 +
     bonus (detect_ema_retest primary_df ''ema_50'' (2 / 1000)) 10 +
     bonus (check_bb_confluence primary_df d) 5"

definition scalping_kwargs :: "environment \<Rightarrow> string \<Rightarrow> frame \<Rightarrow> row \<Rightarrow> pyfloat \<Rightarrow> ModeConfig \<Rightarrow>
    bias \<Rightarrow> pyfloat \<Rightarrow> direction \<Rightarrow> int \<Rightarrow> pyfloat \<Rightarrow> candidate option" where
  "scalping_kwargs env sy primary_df primary_latest adx mode_config trend_bias volume_boost
       d score entry =
     (case calculate_sl_tp primary_df entry d mode_config of
        (sl, tp) \<Rightarrow>
          do { atr \<leftarrow> primary_latest ''atr'';
               Some \<lparr>sr_symbol = sy, sr_mode = SCALPING, sr_direction = d,
                     sr_entry_price = entry, sr_stop_loss = sl, sr_take_profit = tp,
                     sr_quantity = calculate_quantity (config env) sy entry sl,
                     sr_score = score, sr_confidence = get_confidence_level score,
                     sr_trend_note = ''EMA200(5m)'' @ bias_lower trend_bias,
                     sr_adx_value = adx, sr_volume_boost = volume_boost, sr_atr_value = atr,
                     sr_code = generated_code env, sr_timestamp = clock env\<rparr> })"

definition scalping_attempt :: "environment \<Rightarrow> string \<Rightarrow> frame \<Rightarrow> frame \<Rightarrow> ModeConfig \<Rightarrow>
    candidate option option" where
  "scalping_attempt env sy primary_df confirm_df mode_config =
     (let trend_bias = get_trend_bias confirm_df SCALPING
      in if trend_bias = NEUTRAL then Some None
         else
           do { confirm_latest \<leftarrow> iloc confirm_df 1;
                adx \<leftarrow> confirm_latest ''adx'';
                if isna adx \<or> flt adx (Num (of_int (adx_min mode_config))) then Some None
                else
                  (case check_volume_boost primary_df (volume_boost_min mode_config) of
                     (volume_valid, volume_boost) \<Rightarrow>
                       if \<not> volume_valid then Some None
                       else
                         do { primary_latest \<leftarrow> iloc primary_df 1;
                              direction_loop
                                (\<lambda>d. Some (scalping_score primary_df adx mode_config trend_bias
                                              volume_valid d))
                                (score_min mode_config)
                                (\<lambda>d. calculate_entry_price primary_df d SCALPING)
                                (scalping_kwargs env sy primary_df primary_latest adx mode_config
                                   trend_bias volume_boost)
                                [LONG, SHORT] }) })"

definition detect_scalping_signal :: "environment \<Rightarrow> string \<Rightarrow> frame \<Rightarrow> frame \<Rightarrow> ModeConfig \<Rightarrow>
    SignalResult option" where
  "detect_scalping_signal env sy primary_df confirm_df mode_config =
     construct (scalping_attempt env sy primary_df confirm_df mode_config)"

subsection \<open>Intraday\<close>

text \<open>
  In the intraday and swing loops the trend strength is read inside the loop, so the
  score itself raises when the confirmation frame has no \<^verbatim>\<open>adx\<close> column.
\<close>

definition adx_strong :: "row \<Rightarrow> ModeConfig \<Rightarrow> bool option" where
  "adx_strong confirm_latest mode_config =
     do { adx \<leftarrow> confirm_latest ''adx'';
          Some (notna adx \<and> fge adx (Num (of_int (adx_min mode_config)))) }"

text \<open>\<^verbatim>\<open>confirm_latest.get('adx', 0)\<close>.\<close>

definition adx_or_zero :: "row \<Rightarrow> pyfloat" where
  "adx_or_zero confirm_latest = (case confirm_latest ''adx'' of None \<Rightarrow> Num 0 | Some v \<Rightarrow> v)"

definition intraday_score :: "frame \<Rightarrow> frame \<Rightarrow> row \<Rightarrow> ModeConfig \<Rightarrow> bias \<Rightarrow> bool \<Rightarrow> direction \<Rightarrow>
    int option" where
  "intraday_score primary_df confirm_df confirm_latest mode_config trend_bias volume_valid d =
     (let macd_direction = (if d = LONG then ''up'' else ''down'')
      in do { strong \<leftarrow> adx_strong confirm_latest mode_config;
              Some (bonus (trend_bias = Bias d) 20 +
                    bonus (detect_macd_cross primary_df macd_direction \<or>
                           detect_macd_cross confirm_df macd_direction) 20 +
                    bonus volume_valid 10 +
                    bonus (detect_ema_retest primary_df ''ema_50'' (2 / 1000)) 10 +
                    bonus (check_fib_confluence primary_df d) 10 +
                    bonus strong 10 +
                    bonus (check_rsi_healthy confirm_latest d) 5) })"

definition intraday_trend_note :: "row \<Rightarrow> bias \<Rightarrow> string option" where
  "intraday_trend_note primary_latest trend_bias =
     (let trend_note = ''EMA200(1H)'' @ bias_lower trend_bias
      in do { macd_line \<leftarrow> primary_latest ''macd_line'';
              if notna macd_line then
                do { macd_signal \<leftarrow> primary_latest ''macd_signal'';
                     if notna macd_signal
                     then Some (trend_note @ '' | MACD(15m) '' @
                                (if fgt macd_line macd_signal then up_arrow else down_arrow))
                     else Some trend_note }
              else Some trend_note })"

definition intraday_kwargs :: "environment \<Rightarrow> string \<Rightarrow> frame \<Rightarrow> row \<Rightarrow> row \<Rightarrow> ModeConfig \<Rightarrow>
    bias \<Rightarrow> pyfloat \<Rightarrow> direction \<Rightarrow> int \<Rightarrow> pyfloat \<Rightarrow> candidate option" where
  "intraday_kwargs env sy primary_df primary_latest confirm_latest mode_config trend_bias
       volume_boost d score entry =
     (case calculate_sl_tp primary_df entry d mode_config of
        (sl, tp) \<Rightarrow>
          do { trend_note \<leftarrow> intraday_trend_note primary_latest trend_bias;
               atr \<leftarrow> primary_latest ''atr'';
               Some \<lparr>sr_symbol = sy, sr_mode = INTRADAY, sr_direction = d,
                     sr_entry_price = entry, sr_stop_loss = sl, sr_take_profit = tp,
                     sr_quantity = calculate_quantity (config env) sy entry sl,
                     sr_score = score, sr_confidence = get_confidence_level score,
                     sr_trend_note = trend_note,
                     sr_adx_value = adx_or_zero confirm_latest,
                     sr_volume_boost = volume_boost, sr_atr_value = atr,
                     sr_code = generated_code env, sr_timestamp = clock env\<rparr> })"

definition intraday_attempt :: "environment \<Rightarrow> string \<Rightarrow> frame \<Rightarrow> frame \<Rightarrow> ModeConfig \<Rightarrow>
    candidate option option" where
  "intraday_attempt env sy primary_df confirm_df mode_config =
     (let trend_bias = get_trend_bias confirm_df INTRADAY
      in if trend_bias = NEUTRAL then Some None
         else
           do { confirm_latest \<leftarrow> iloc confirm_df 1;
                case check_volume_boost primary_df (volume_boost_min mode_config) of
                  (volume_valid, volume_boost) \<Rightarrow>
                    if \<not> volume_valid then Some None
                    else
                      do { primary_latest \<leftarrow> iloc primary_df 1;
                           direction_loop
                             (intraday_score primary_df confirm_df confirm_latest mode_config
                                trend_bias volume_valid)
                             (score_min mode_config)
                             (\<lambda>d. calculate_entry_price primary_df d INTRADAY)
                             (intraday_kwargs env sy primary_df primary_latest confirm_latest
                                mode_config trend_bias volume_boost)
                             [LONG, SHORT] } })"

definition detect_intraday_signal :: "environment \<Rightarrow> string \<Rightarrow> frame \<Rightarrow> frame \<Rightarrow> ModeConfig \<Rightarrow>
    SignalResult option" where
  "detect_intraday_signal env sy primary_df confirm_df mode_config =
     construct (intraday_attempt env sy primary_df confirm_df mode_config)"

subsection \<open>Swing\<close>

definition swing_score :: "frame \<Rightarrow> frame \<Rightarrow> row \<Rightarrow> ModeConfig \<Rightarrow> bias \<Rightarrow> bool \<Rightarrow> direction \<Rightarrow>
    int option" where
  "swing_score primary_df confirm_df confirm_latest mode_config trend_bias volume_valid d =
     do { strong \<leftarrow> adx_strong confirm_latest mode_config;
          Some (bonus (trend_bias = Bias d) 20 +
                bonus (detect_macd_cross primary_df (if d = LONG then ''up'' else ''down'')) 20 +
                bonus (check_obv_alignment primary_df d) 15 +
                bonus volume_valid 10 +
                bonus strong 10 +
                bonus (check_volume_profile_confluence primary_df d) 10 +
                bonus (check_swing_confluence primary_df confirm_df d) 5) }"

definition swing_trend_note :: "frame \<Rightarrow> row \<Rightarrow> bias \<Rightarrow> direction \<Rightarrow> string option" where
  "swing_trend_note primary_df primary_latest trend_bias d =
     (let cloud_status = (if trend_bias = Bias LONG then ''Above Cloud'' else ''Below Cloud'')
      in do { macd_line \<leftarrow> primary_latest ''macd_line'';
              macd_signal \<leftarrow> primary_latest ''macd_signal'';
              (let macd_status = (if fgt macd_line macd_signal then up_arrow else down_arrow);
                   obv_status = (if check_obv_alignment primary_df d then up_arrow else down_arrow)
               in Some (cloud_status @ ''(1D) | MACD(4H)'' @ macd_status @ '' | OBV'' @
                        obv_status)) })"

definition swing_kwargs :: "environment \<Rightarrow> string \<Rightarrow> frame \<Rightarrow> row \<Rightarrow> row \<Rightarrow> ModeConfig \<Rightarrow>
    bias \<Rightarrow> pyfloat \<Rightarrow> direction \<Rightarrow> int \<Rightarrow> pyfloat \<Rightarrow> candidate option" where
  "swing_kwargs env sy primary_df primary_latest confirm_latest mode_config trend_bias
       volume_boost d score entry =
     (case calculate_sl_tp primary_df entry d mode_config of
        (sl, tp) \<Rightarrow>
          do { trend_note \<leftarrow> swing_trend_note primary_df primary_latest trend_bias d;
               atr \<leftarrow> primary_latest ''atr'';
               Some \<lparr>sr_symbol = sy, sr_mode = SWING, sr_direction = d,
                     sr_entry_price = entry, sr_stop_loss = sl, sr_take_profit = tp,
                     sr_quantity = calculate_quantity (config env) sy entry sl,
                     sr_score = score, sr_confidence = get_confidence_level score,
                     sr_trend_note = trend_note,
                     sr_adx_value = adx_or_zero confirm_latest,
                     sr_volume_boost = volume_boost, sr_atr_value = atr,
                     sr_code = generated_code env, sr_timestamp = clock env\<rparr> })"

definition swing_attempt :: "environment \<Rightarrow> string \<Rightarrow> frame \<Rightarrow> frame \<Rightarrow> ModeConfig \<Rightarrow>
    candidate option option" where
  "swing_attempt env sy primary_df confirm_df mode_config =
     (let trend_bias = get_trend_bias confirm_df SWING
      in if trend_bias = NEUTRAL then Some None
         else
           (case check_volume_boost primary_df (volume_boost_min mode_config) of
              (volume_valid, volume_boost) \<Rightarrow>
                if \<not> volume_valid then Some None
                else
                  do { primary_latest \<leftarrow> iloc primary_df 1;
                       confirm_latest \<leftarrow> iloc confirm_df 1;
                       direction_loop
                         (swing_score primary_df confirm_df confirm_latest mode_config
                            trend_bias volume_valid)
                         (score_min mode_config)
                         (\<lambda>d. calculate_entry_price primary_df d SWING)
                         (swing_kwargs env sy primary_df primary_latest confirm_latest
                            mode_config trend_bias volume_boost)
                         [LONG, SHORT] }))"

definition detect_swing_signal :: "environment \<Rightarrow> string \<Rightarrow> frame \<Rightarrow> frame \<Rightarrow> ModeConfig \<Rightarrow>
    SignalResult option" where
  "detect_swing_signal env sy primary_df confirm_df mode_config =
     construct (swing_attempt env sy primary_df confirm_df mode_config)"




section \<open>Scenarios\<close>

text \<open>
  The signal of Scenarios A and B of the specification: LONG, entry 50000, stop-loss 49900,
  take-profit 50150, ATR 100, in the mode whose trailing percentage is 0.5 per cent. A
  monitor that tracks it alone, with the cached price \<open>p\<close> and the trailing stop \<open>t\<close>.
\<close>

definition scenario_signal :: signal where
  "scenario_signal = \<lparr>code = ''SIG1'', symbol = ''BTCUSDT'', mode = INTRADAY, direction = LONG,
     entry_price = 50000, stop_loss = 49900, take_profit = 50150, quantity = 1,
     atr_value = Some 100, status = FILLED, filled_at = Some 0, closed_at = None,
     fill_price = Some 50000, close_price = None, close_reason = None, pnl_points = None,
     pnl_percent = None, pnl_usd = None, validity_until = Some 100\<rparr>"

definition scenario_monitor :: "signal \<Rightarrow> real option \<Rightarrow> real option \<Rightarrow> monitor" where
  "scenario_monitor s p t =
     \<lparr>active_signals = [(code s, s)],
      price_cache = (\<lambda>k. if k = symbol s then p else None),
      trailing_stops = (\<lambda>k. if k = code s then t else None),
      db = \<lparr>signals = [code s \<mapsto> s], executions = [], cooldowns = []\<rparr>,
      notification_queue = []\<rparr>"

text \<open>The mirror image: SHORT from 50000 with stop-loss 50100 and take-profit 49850.\<close>

definition short_signal :: signal where
  "short_signal = scenario_signal\<lparr>direction := SHORT, stop_loss := 50100, take_profit := 49850\<rparr>"

text \<open>The same signal before its entry is filled, with the deadline at instant 100.\<close>

definition pending_signal :: signal where
  "pending_signal = scenario_signal\<lparr>status := NEW, filled_at := None, fill_price := None\<rparr>"

definition unpriced_monitor :: monitor where
  "unpriced_monitor = scenario_monitor pending_signal None None"

definition twice_swept :: monitor where
  "twice_swept = check_expired_signals_pass (check_expired_signals_pass unpriced_monitor 101) 161"

definition expiry_alert :: notification where
  "expiry_alert = SystemAlert ''INFO'' ''Signal SIG1 (BTCUSDT) expired without entry''"

text \<open>
  A tick at 49890 while the trailing stop still stands at the original stop-loss 49900.
\<close>

definition losing_tick :: "bool \<times> monitor \<times> signal" where
  "losing_tick =
     check_signal_status (scenario_monitor scenario_signal (Some 49890) (Some 49900)) 5 scenario_signal"

text \<open>
  Scenario A of the specification for the scorer: equity 10000 at one per cent risk, a last
  close of 50000 on the 50-period average, ATR 100. A primary-frame row holds the columns
  the scalping checks read.
\<close>

definition scenario_config :: Config where
  "scenario_config = \<lparr>initial_equity = 10000, risk_per_trade = 1 / 100,
     daily_loss_cap = 3 / 100, max_concurrent_signals = 3\<rparr>"

definition scenario_env :: environment where
  "scenario_env = \<lparr>config = scenario_config, clock = 0, generated_code = ''SIG1''\<rparr>"

definition candle :: "real \<Rightarrow> real \<Rightarrow> real \<Rightarrow> real \<Rightarrow> real \<Rightarrow> real \<Rightarrow> row" where
  "candle close ema rsi k ratio atr =
     [''close'' \<mapsto> Num close, ''ema_50'' \<mapsto> Num ema, ''rsi'' \<mapsto> Num rsi,
      ''stoch_rsi_k'' \<mapsto> Num k, ''volume_ratio'' \<mapsto> Num ratio, ''atr'' \<mapsto> Num atr]"

definition scenario_primary :: frame where
  "scenario_primary = [candle 49990 50000 45 15 1 100, candle 50000 50000 55 25 (3 / 2) 100]"

definition scenario_confirm :: frame where
  "scenario_confirm = [[''close'' \<mapsto> Num 50000, ''ema_200'' \<mapsto> Num 49000, ''adx'' \<mapsto> Num 30]]"

definition scenario_attempt :: "candidate option option" where
  "scenario_attempt =
     scalping_attempt scenario_env ''BTCUSDT'' scenario_primary scenario_confirm (modes SCALPING)"

text \<open>A last close of 50000 with the 50-period average at 49950, 0.1 per cent away.\<close>

definition retest_primary :: frame where
  "retest_primary = [candle 50000 49950 55 25 (3 / 2) 100]"


text \<open>
  An ATR of \<^verbatim>\<open>2**-41\<close>, about 4.5e-13, a sixteenth of the spacing \<^verbatim>\<open>2**-37\<close> of the
  doubles around 50000; and an ATR that is NaN.
\<close>

definition tiny_primary :: frame where
  "tiny_primary = [candle 50000 50000 55 25 (3 / 2) (1 / 2199023255552)]"


section \<open>Properties of the store\<close>

lemma update_signal_status_close:
  "signals d c = Some row \<Longrightarrow>
   \<exists>row'. signals (update_signal_status d now c st None (Some cp) (Some r)) c = Some row' \<and>
     status row' = st \<and> close_reason row' = Some r \<and> close_price row' = Some cp"
  by (simp add: update_signal_status_def set_close_def Let_def)

lemma add_signal_execution_signals [simp]:
  "signals (add_signal_execution d c ty p q) = signals d"
  by (simp add: add_signal_execution_def split: option.splits)

lemma add_signal_execution_cooldowns [simp]:
  "cooldowns (add_signal_execution d c ty p q) = cooldowns d"
  by (simp add: add_signal_execution_def split: option.splits)

lemma update_signal_status_cooldowns [simp]:
  "cooldowns (update_signal_status d now c st a b r) = cooldowns d"
  by (simp add: update_signal_status_def Let_def split: option.splits)

section \<open>Properties of the monitor\<close>

subsection \<open>Cooldown after a loss\<close>

text \<open>
  A stop-loss close registers the cooldown: when no trailing stop is stored for the signal
  and the price reaches the original stop-loss, the store afterwards holds a cooldown for
  the signal's symbol and mode that ends the mode's \<^verbatim>\<open>cooldown_minutes\<close> after the close.
\<close>

lemma stop_loss_registers_cooldown:
  assumes "status s = FILLED" and "price_cache m (symbol s) = Some p" and "p \<noteq> 0"
    and "\<not> is_take_profit_hit s p" and "trailing_stops m (code s) = None"
    and "is_stop_loss_hit s p"
  shows "check_signal_status m now s = (True, handle_stop_loss m now s p, s) \<and>
         \<lparr>cd_symbol = symbol s, cd_mode = mode s, reason = ''LOSS'',
           cooldown_until = now + minutes (cooldown_minutes (modes (mode s)))\<rparr>
           \<in> set (cooldowns (db (handle_stop_loss m now s p)))"
  using assms
  by (simp add: check_signal_status_def dom_def handle_stop_loss_def add_cooldown_def Let_def)

text \<open>\<^verbatim>\<open>_handle_trailing_stop\<close> never touches the cooldowns, whatever the outcome.\<close>

lemma handle_trailing_stop_cooldowns:
  "cooldowns (db (handle_trailing_stop m now s cp)) = cooldowns (db m)"
  by (simp add: handle_trailing_stop_def Let_def)

text \<open>
  C1. A FILLED signal closed as LOSE, by the stop-loss or by an unfavourable trailing-stop
  hit, should leave a cooldown for its symbol and mode. The code does so on the stop-loss
  path only. Here the scenario signal is closed by a tick at 49890 against a trailing stop
  equal to the original stop-loss 49900: the status evaluation reports the signal
  completed, the store records LOSE with close reason TRAILING, and no cooldown exists.
\<close>

theorem trailing_loss_registers_no_cooldown:
  "fst losing_tick = True \<and>
   map_option status (signals (db (fst (snd losing_tick))) ''SIG1'') = Some LOSE \<and>
   map_option close_reason (signals (db (fst (snd losing_tick))) ''SIG1'') = Some (Some TRAILING) \<and>
   cooldowns (db (fst (snd losing_tick))) = []"
  by (simp add: losing_tick_def scenario_monitor_def scenario_signal_def check_signal_status_def
      is_take_profit_hit_def is_trailing_stop_hit_def handle_trailing_stop_def
      was_profitable_before_trailing_def update_signal_status_def set_close_def
      add_signal_execution_def Let_def dom_def)

subsection \<open>Expiry\<close>

text \<open>
  C2. A NEW signal whose deadline has passed should be cancelled with close reason EXPIRED
  exactly once, with no price needed. With no price cached the status evaluation does
  nothing; the expiry sweep handles the signal but keeps it in \<^verbatim>\<open>active_signals\<close> with
  status NEW, so the next sweep handles it again. After the sweeps at instants 101 and 161
  the queue holds two expiry alerts, the signal is still tracked as NEW, and the store row
  is CANCELLED with no close reason.
\<close>

theorem expiry_sweep_repeats:
  "check_signal_status unpriced_monitor 101 pending_signal = (False, unpriced_monitor, pending_signal) \<and>
   notification_queue twice_swept = [expiry_alert, expiry_alert] \<and>
   active_signals twice_swept = [(''SIG1'', pending_signal)] \<and>
   map_option status (signals (db twice_swept) ''SIG1'') = Some CANCELLED \<and>
   map_option close_reason (signals (db twice_swept) ''SIG1'') = Some None"
  by (simp add: twice_swept_def check_expired_signals_pass_def expired_signals_def
      unpriced_monitor_def scenario_monitor_def pending_signal_def scenario_signal_def
      handle_signal_expired_def expiry_alert_def update_signal_status_def
      check_signal_status_def)

subsection \<open>Trailing stop\<close>

lemma update_trailing_stop_step:
  assumes "trailing_stops m (code s) = Some t"
  shows "\<exists>t'. trailing_stops (update_trailing_stop m s p) (code s) = Some t' \<and>
           (t' = t \<or> (direction s = LONG \<and> t < t') \<or> (direction s = SHORT \<and> t' < t))"
  using assms by (cases "direction s") (simp_all add: update_trailing_stop_def Let_def)

text \<open>
  C6. For a signal with a stored trailing stop \<open>t\<close>, one update at any price leaves the
  stop unchanged or moves it strictly upward for LONG, strictly downward for SHORT; and
  after any sequence of price updates the stop is still stored, not below \<open>t\<close> for LONG
  and not above \<open>t\<close> for SHORT.
\<close>

theorem trailing_stop_monotonic:
  assumes "trailing_stops m (code s) = Some t"
  shows "(\<exists>t'. trailing_stops (update_trailing_stop m s p) (code s) = Some t' \<and>
            (t' = t \<or> (direction s = LONG \<and> t < t') \<or> (direction s = SHORT \<and> t' < t))) \<and>
         (\<exists>t'. trailing_stops (foldl (\<lambda>m' q. update_trailing_stop m' s q) m ps) (code s) = Some t' \<and>
            (direction s = LONG \<longrightarrow> t \<le> t') \<and> (direction s = SHORT \<longrightarrow> t' \<le> t))"
proof
  show "\<exists>t'. trailing_stops (update_trailing_stop m s p) (code s) = Some t' \<and>
            (t' = t \<or> (direction s = LONG \<and> t < t') \<or> (direction s = SHORT \<and> t' < t))"
    by (rule update_trailing_stop_step [OF assms])
next
  show "\<exists>t'. trailing_stops (foldl (\<lambda>m' q. update_trailing_stop m' s q) m ps) (code s) = Some t' \<and>
            (direction s = LONG \<longrightarrow> t \<le> t') \<and> (direction s = SHORT \<longrightarrow> t' \<le> t)"
    using assms
  proof (induction ps arbitrary: m t)
    case Nil
    then show ?case by simp
  next
    case (Cons q qs)
    from update_trailing_stop_step [OF Cons.prems, of q] obtain u where
      u: "trailing_stops (update_trailing_stop m s q) (code s) = Some u"
         "u = t \<or> (direction s = LONG \<and> t < u) \<or> (direction s = SHORT \<and> u < t)"
      by blast
    from Cons.IH [OF u(1)] obtain t' where
      t': "trailing_stops (foldl (\<lambda>m' q. update_trailing_stop m' s q)
             (update_trailing_stop m s q) qs) (code s) = Some t'"
          "direction s = LONG \<longrightarrow> u \<le> t'" "direction s = SHORT \<longrightarrow> t' \<le> u"
      by blast
    show ?case
      using u(2) t' by (cases "direction s") auto
  qed
qed

text \<open>
  Scenario B: from the initial stop 49937.5 the ticks 50400 and 50100 leave the LONG stop
  at 50148. For the SHORT signal, from 50062.5 the ticks 49600 and 49900 leave the stop at
  49848.
\<close>

theorem trailing_stop_monotonic_witness:
  "trailing_stops (foldl (\<lambda>m' q. update_trailing_stop m' scenario_signal q)
      (scenario_monitor scenario_signal None (Some 49937.5)) [50400, 50100]) ''SIG1'' = Some 50148 \<and>
   (49937.5 :: real) \<le> 50148 \<and>
   trailing_stops (foldl (\<lambda>m' q. update_trailing_stop m' short_signal q)
      (scenario_monitor short_signal None (Some 50062.5)) [49600, 49900]) ''SIG1'' = Some 49848 \<and>
   (49848 :: real) \<le> 50062.5"
proof -
  let ?l = "scenario_monitor scenario_signal None (Some 49937.5)"
  let ?s = "scenario_monitor short_signal None (Some 50062.5)"
  have h: "trailing_stops ?l (code scenario_signal) = Some 49937.5"
    "trailing_stops ?s (code short_signal) = Some 50062.5"
    by (simp_all add: scenario_monitor_def)
  have d: "direction scenario_signal = LONG" "direction short_signal = SHORT"
    "code scenario_signal = ''SIG1''" "code short_signal = ''SIG1''"
    by (simp_all add: scenario_signal_def short_signal_def)
  have e: "trailing_stops (foldl (\<lambda>m' q. update_trailing_stop m' scenario_signal q) ?l
        [50400, 50100]) ''SIG1'' = Some 50148"
    "trailing_stops (foldl (\<lambda>m' q. update_trailing_stop m' short_signal q) ?s
        [49600, 49900]) ''SIG1'' = Some 49848"
    by (simp_all add: scenario_monitor_def scenario_signal_def short_signal_def
        update_trailing_stop_def Let_def)
  from trailing_stop_monotonic [OF h(1), of 50400 "[50400, 50100]"] d e(1)
  have "(49937.5 :: real) \<le> 50148"
    by auto
  moreover from trailing_stop_monotonic [OF h(2), of 49600 "[49600, 49900]"] d e(2)
  have "(49848 :: real) \<le> 50062.5"
    by auto
  ultimately show ?thesis
    using e by simp
qed

text \<open>
  The same holds for a whole status evaluation of a FILLED signal: whatever branch it
  takes, the stored stop afterwards is the old one or a strictly tighter one.
\<close>

lemma check_filled_trailing:
  assumes "status s = FILLED" and "trailing_stops m (code s) = Some t"
    and "check_signal_status m now s = (r, m', s')"
  shows "\<exists>t'. trailing_stops m' (code s) = Some t' \<and>
           (t' = t \<or> (direction s = LONG \<and> t < t') \<or> (direction s = SHORT \<and> t' < t))"
proof -
  have tp: "trailing_stops (handle_take_profit m now s p) = trailing_stops m" for p
    by (simp add: handle_take_profit_def Let_def)
  have tr: "trailing_stops (handle_trailing_stop m now s p) = trailing_stops m" for p
    by (simp add: handle_trailing_stop_def Let_def)
  have up: "\<exists>t'. trailing_stops (update_trailing_stop m s p) (code s) = Some t' \<and>
           (t' = t \<or> (direction s = LONG \<and> t < t') \<or> (direction s = SHORT \<and> t' < t))" for p
    by (rule update_trailing_stop_step [OF assms(2)])
  show ?thesis
    using assms tp tr up
    by (auto simp: check_signal_status_def Let_def dom_def split: if_splits)
qed

text \<open>
  C7. When a FILLED signal with a cached price misses its take-profit and the price
  crosses the stored trailing stop \<open>t\<close>, the status evaluation completes the signal and the
  store row gets close reason TRAILING and an outcome that is WIN or LOSE: WIN exactly
  when \<open>t\<close> is above the original stop-loss for LONG, below it for SHORT.
\<close>

theorem trailing_close_outcome:
  assumes "status s = FILLED" and "price_cache m (symbol s) = Some p" and "p \<noteq> 0"
    and "\<not> is_take_profit_hit s p" and "trailing_stops m (code s) = Some t"
    and "is_trailing_stop_hit m s p" and "signals (db m) (code s) = Some row"
  shows "\<exists>m' row'. check_signal_status m now s = (True, m', s) \<and>
           signals (db m') (code s) = Some row' \<and> close_reason row' = Some TRAILING \<and>
           (status row' = WIN \<or> status row' = LOSE) \<and>
           (status row' = WIN \<longleftrightarrow>
              (if direction s = LONG then t > stop_loss s else t < stop_loss s))"
proof -
  let ?r = "if was_profitable_before_trailing m s then WIN else LOSE"
  from assms(7) obtain row' where r:
    "signals (update_signal_status (db m) now (code s) ?r None (Some p) (Some TRAILING)) (code s)
       = Some row'"
    "status row' = ?r" "close_reason row' = Some TRAILING"
    using update_signal_status_close by blast
  then have "signals (db (handle_trailing_stop m now s p)) (code s) = Some row'"
    by (simp add: handle_trailing_stop_def Let_def)
  moreover have "check_signal_status m now s = (True, handle_trailing_stop m now s p, s)"
    using assms(1-6) by (simp add: check_signal_status_def dom_def)
  moreover have "was_profitable_before_trailing m s =
      (if direction s = LONG then t > stop_loss s else t < stop_loss s)"
    using assms(5) by (simp add: was_profitable_before_trailing_def)
  ultimately show ?thesis
    using r(2,3) by (intro exI [of _ "handle_trailing_stop m now s p"] exI [of _ row']) auto
qed

text \<open>
  Scenario B, last tick: the price falls to the stop 50148, above the stop-loss 49900, and
  the close is a WIN. With the stop still at the stop-loss 49900, a tick at 49890 closes
  as LOSE.
\<close>

theorem trailing_close_outcome_witness:
  "(\<exists>m' row'. check_signal_status (scenario_monitor scenario_signal (Some 50148) (Some 50148)) 5
        scenario_signal = (True, m', scenario_signal) \<and>
      signals (db m') ''SIG1'' = Some row' \<and> close_reason row' = Some TRAILING \<and>
      status row' = WIN) \<and>
   (\<exists>m' row'. check_signal_status (scenario_monitor scenario_signal (Some 49890) (Some 49900)) 5
        scenario_signal = (True, m', scenario_signal) \<and>
      signals (db m') ''SIG1'' = Some row' \<and> close_reason row' = Some TRAILING \<and>
      status row' = LOSE)"
proof -
  let ?w = "scenario_monitor scenario_signal (Some 50148) (Some 50148)"
  let ?l = "scenario_monitor scenario_signal (Some 49890) (Some 49900)"
  have w: "status scenario_signal = FILLED"
    "price_cache ?w (symbol scenario_signal) = Some 50148" "(50148 :: real) \<noteq> 0"
    "\<not> is_take_profit_hit scenario_signal 50148"
    "trailing_stops ?w (code scenario_signal) = Some 50148"
    "is_trailing_stop_hit ?w scenario_signal 50148"
    "signals (db ?w) (code scenario_signal) = Some scenario_signal"
    by (simp_all add: scenario_monitor_def scenario_signal_def is_take_profit_hit_def
        is_trailing_stop_hit_def)
  have l: "status scenario_signal = FILLED"
    "price_cache ?l (symbol scenario_signal) = Some 49890" "(49890 :: real) \<noteq> 0"
    "\<not> is_take_profit_hit scenario_signal 49890"
    "trailing_stops ?l (code scenario_signal) = Some 49900"
    "is_trailing_stop_hit ?l scenario_signal 49890"
    "signals (db ?l) (code scenario_signal) = Some scenario_signal"
    by (simp_all add: scenario_monitor_def scenario_signal_def is_take_profit_hit_def
        is_trailing_stop_hit_def)
  have g: "direction scenario_signal = LONG" "stop_loss scenario_signal = 49900"
    "code scenario_signal = ''SIG1''"
    by (simp_all add: scenario_signal_def)
  from trailing_close_outcome [OF w, of 5] g
  have "\<exists>m' row'. check_signal_status ?w 5 scenario_signal = (True, m', scenario_signal) \<and>
      signals (db m') ''SIG1'' = Some row' \<and> close_reason row' = Some TRAILING \<and>
      status row' = WIN"
    by auto
  moreover from trailing_close_outcome [OF l, of 5] g
  have "\<exists>m' row'. check_signal_status ?l 5 scenario_signal = (True, m', scenario_signal) \<and>
      signals (db m') ''SIG1'' = Some row' \<and> close_reason row' = Some TRAILING \<and>
      status row' = LOSE"
    by auto
  ultimately show ?thesis
    by blast
qed

subsection \<open>Order of the checks\<close>

text \<open>
  C9. For a FILLED signal with a cached price, a tick that reaches the take-profit closes
  the signal as WIN with close reason TP, whatever the trailing stop: the take-profit is
  tested first, so a tick that also crosses the trailing stop is never closed as TRAILING.
\<close>

theorem take_profit_checked_first:
  assumes "status s = FILLED" and "price_cache m (symbol s) = Some p" and "p \<noteq> 0"
    and "is_take_profit_hit s p" and "signals (db m) (code s) = Some row"
  shows "\<exists>m' row'. check_signal_status m now s = (True, m', s) \<and>
           signals (db m') (code s) = Some row' \<and>
           status row' = WIN \<and> close_reason row' = Some TP"
proof -
  from assms(5) obtain row' where r:
    "signals (update_signal_status (db m) now (code s) WIN None (Some p) (Some TP)) (code s)
       = Some row'"
    "status row' = WIN" "close_reason row' = Some TP"
    using update_signal_status_close by blast
  then have "signals (db (handle_take_profit m now s p)) (code s) = Some row'"
    by (simp add: handle_take_profit_def Let_def)
  moreover have "check_signal_status m now s = (True, handle_take_profit m now s p, s)"
    using assms(1-4) by (simp add: check_signal_status_def)
  ultimately show ?thesis
    using r(2,3) by blast
qed

text \<open>A tick at 50160 with the trailing stop at 50200: both conditions hold at once.\<close>

theorem take_profit_checked_first_witness:
  "is_trailing_stop_hit (scenario_monitor scenario_signal (Some 50160) (Some 50200))
      scenario_signal 50160 \<and>
   (\<exists>m' row'. check_signal_status (scenario_monitor scenario_signal (Some 50160) (Some 50200)) 5
        scenario_signal = (True, m', scenario_signal) \<and>
      signals (db m') ''SIG1'' = Some row' \<and> status row' = WIN \<and> close_reason row' = Some TP)"
proof -
  let ?m = "scenario_monitor scenario_signal (Some 50160) (Some 50200)"
  have h: "status scenario_signal = FILLED"
    "price_cache ?m (symbol scenario_signal) = Some 50160" "(50160 :: real) \<noteq> 0"
    "is_take_profit_hit scenario_signal 50160"
    "signals (db ?m) (code scenario_signal) = Some scenario_signal"
    by (simp_all add: scenario_monitor_def scenario_signal_def is_take_profit_hit_def)
  have g: "is_trailing_stop_hit ?m scenario_signal 50160" "code scenario_signal = ''SIG1''"
    by (simp_all add: scenario_monitor_def scenario_signal_def is_trailing_stop_hit_def)
  from take_profit_checked_first [OF h, of 5] g show ?thesis
    by auto
qed

subsection \<open>Missing price\<close>

text \<open>
  C10. If the price cache holds no entry for the signal's symbol, or holds 0, a status
  evaluation returns \<^verbatim>\<open>False\<close> and leaves the monitor (trailing stops, store, queue) and
  the signal object exactly as they were.
\<close>

theorem no_price_no_change:
  "price_cache m (symbol s) = None \<or> price_cache m (symbol s) = Some 0
   \<Longrightarrow> check_signal_status m now s = (False, m, s)"
  by (auto simp: check_signal_status_def)

theorem no_price_no_change_witness:
  "check_signal_status (scenario_monitor scenario_signal (Some 0) (Some 49950)) 5 scenario_signal
     = (False, scenario_monitor scenario_signal (Some 0) (Some 49950), scenario_signal) \<and>
   check_signal_status (scenario_monitor scenario_signal None (Some 49950)) 5 scenario_signal
     = (False, scenario_monitor scenario_signal None (Some 49950), scenario_signal)"
proof -
  have "price_cache (scenario_monitor scenario_signal (Some 0) (Some 49950))
      (symbol scenario_signal) = Some 0"
    "price_cache (scenario_monitor scenario_signal None (Some 49950))
      (symbol scenario_signal) = None"
    by (simp_all add: scenario_monitor_def)
  then show ?thesis
    using no_price_no_change [of "scenario_monitor scenario_signal (Some 0) (Some 49950)"
        scenario_signal 5]
      no_price_no_change [of "scenario_monitor scenario_signal None (Some 49950)"
        scenario_signal 5]
    by blast
qed

section \<open>Properties of double rounding\<close>

text \<open>
  Rounding to the nearest integer is monotone and fixes the integers.
\<close>

lemma rint_of_int [simp]: "rint (of_int k) = k"
  by (simp add: rint_def)





lemma ulp_pos: "0 < ulp x"
  by (simp add: ulp_def)

lemma binade_upper: assumes "x \<noteq> 0" shows "\<bar>x\<bar> < 2 powr (of_int (binade x) + 1)"
proof -
  from assms have p: "0 < \<bar>x\<bar>" by simp
  have "\<bar>x\<bar> < 2 powr (of_int \<lfloor>log 2 \<bar>x\<bar>\<rfloor> + 1)"
    using floor_log_eq_powr_iff [OF p, of 2 "\<lfloor>log 2 \<bar>x\<bar>\<rfloor>"] by simp
  also have "\<dots> \<le> 2 powr (of_int (binade x) + 1)"
    by (rule powr_mono) (simp_all add: binade_def)
  finally show ?thesis .
qed

lemma binade_lower: assumes "x \<noteq> 0" and "- 1022 < binade x"
  shows "2 powr (of_int (binade x)) \<le> \<bar>x\<bar>"
proof -
  from assms have p: "0 < \<bar>x\<bar>" by simp
  from assms(2) have "binade x = \<lfloor>log 2 \<bar>x\<bar>\<rfloor>" by (simp add: binade_def max_def split: if_splits)
  then show ?thesis
    using floor_log_eq_powr_iff [OF p, of 2 "\<lfloor>log 2 \<bar>x\<bar>\<rfloor>"] by simp
qed

lemma binade_ge: "- 1022 \<le> binade x"
  by (simp add: binade_def)

text \<open>
  A double \<open>d\<close> is a fixed point of the rounding. Rounding never crosses a double: what
  lies on one side of \<open>d\<close> is rounded to that side of \<open>d\<close> or to \<open>d\<close> itself.
\<close>

lemma powr_int_diff: assumes "a \<le> b" shows "(2::real) powr (of_int b - c) = 2 powr (of_int a - c) * 2 ^ nat (b - a)"
proof -
  have "(2::real) powr (of_int b - c) = 2 powr ((of_int a - c) + real (nat (b - a)))"
    using assms by simp
  also have "\<dots> = 2 powr (of_int a - c) * 2 powr (real (nat (b - a)))"
    by (rule powr_add)
  also have "2 powr (real (nat (b - a))) = (2::real) ^ nat (b - a)"
    by (rule powr_realpow) simp
  finally show ?thesis .
qed







lemma round_double_zero [simp]: "round_double 0 = 0"
  by (simp add: round_double_def)

text \<open>
  The integers below \<open>2 ^ 53\<close> in magnitude, and their multiples by a power of two not
  below that of the subnormals, are doubles.
\<close>

lemma round_double_of_int:
  assumes "\<bar>n\<bar> < 2 ^ 53"
  shows "round_double (of_int n) = of_int n"
proof (cases "n = 0")
  case True
  then show ?thesis by simp
next
  case False
  let ?x = "of_int n :: real"
  from False have x: "?x \<noteq> 0" by simp
  from False have "1 \<le> \<bar>n\<bar>" by linarith
  then have "(of_int 1 :: real) \<le> of_int \<bar>n\<bar>" by (simp only: of_int_le_iff)
  then have one: "1 \<le> \<bar>?x\<bar>" by simp
  have up: "\<bar>?x\<bar> < 2 powr 53"
  proof -
    from assms have "of_int \<bar>n\<bar> < (of_int (2 ^ 53) :: real)" by (simp only: of_int_less_iff)
    moreover have "(2::real) powr 53 = 2 ^ 53"
      using powr_realpow [of 2 53] by simp
    ultimately show ?thesis by simp
  qed
  have lo: "0 \<le> binade ?x"
  proof -
    from one binade_upper [OF x] have "(1::real) < 2 powr (of_int (binade ?x) + 1)"
      by linarith
    then have "(2::real) powr 0 < 2 powr (of_int (binade ?x) + 1)"
      by simp
    then have "(0::real) < of_int (binade ?x) + 1"
      by (rule powr_less_cancel) simp
    then show ?thesis by linarith
  qed
  then have "- 1022 < binade ?x" by linarith
  from binade_lower [OF x this] up
  have "(2::real) powr of_int (binade ?x) < 2 powr 53"
    by linarith
  then have "(of_int (binade ?x) :: real) < 53"
    by (rule powr_less_cancel) simp
  then have hi: "binade ?x \<le> 52" by linarith
  define P where "P = (2::int) ^ nat (52 - binade ?x)"
  have P: "0 < P" by (simp add: P_def)
  have "(2::real) powr (of_int 52 - 52) = 2 powr (of_int (binade ?x) - 52) * 2 ^ nat (52 - binade ?x)"
    by (rule powr_int_diff [OF hi])
  then have u: "ulp ?x * of_int P = 1"
    by (simp add: ulp_def P_def)
  then have "?x / ulp ?x = of_int (n * P)"
    using ulp_pos [of ?x] by (simp add: field_simps)
  then have "rint (?x / ulp ?x) = n * P"
    by (simp only: rint_of_int)
  then have "round_double ?x = of_int (n * P) * ulp ?x"
    using x by (simp add: round_double_def)
  also have "\<dots> = of_int n * (ulp ?x * of_int P)"
    by (simp add: mult.assoc mult.commute)
  finally show ?thesis using u by simp
qed

lemma round_double_numeral [simp]:
  "(numeral w :: int) < 9007199254740992 \<Longrightarrow> round_double (numeral w) = numeral w"
  using round_double_of_int [of "numeral w"] by simp

lemma round_double_one [simp]: "round_double 1 = 1"
  using round_double_of_int [of 1] by simp


lemma powr_int_pow: assumes "a \<le> b" shows "(2::real) powr of_int b = 2 powr of_int a * 2 ^ nat (b - a)"
  using powr_int_diff [OF assms, of 0] by simp

lemma round_double_scaled:
  assumes "\<bar>M\<bar> < 2 ^ 53" and "- 1074 \<le> e"
  shows "round_double (of_int M * 2 powr of_int e) = of_int M * 2 powr of_int e"
proof (cases "M = 0")
  case True
  then show ?thesis by simp
next
  case False
  define x where "x = of_int M * (2::real) powr of_int e"
  from False have x: "x \<noteq> 0" by (simp add: x_def)
  have ax: "\<bar>x\<bar> = of_int \<bar>M\<bar> * 2 powr of_int e"
    by (simp add: x_def abs_mult)
  have le: "binade x - 52 \<le> e"
  proof (cases "- 1022 < binade x")
    case True
    from assms(1) have "(of_int \<bar>M\<bar> :: real) < of_int (2 ^ 53)" by (simp only: of_int_less_iff)
    then have "\<bar>x\<bar> < 2 ^ 53 * 2 powr of_int e"
      unfolding ax by simp
    also have "\<dots> = 2 powr (of_int e + real 53)"
      by (simp add: powr_add powr_realpow del: of_nat_numeral)
    finally have "2 powr of_int (binade x) < 2 powr (of_int e + real 53)"
      using binade_lower [OF x True] by linarith
    then have "of_int (binade x) < of_int e + real 53"
      by (rule powr_less_cancel) simp
    then show ?thesis by simp
  next
    case False
    with binade_ge [of x] have "binade x = - 1022" by linarith
    with assms(2) show ?thesis by simp
  qed
  define P where "P = (2::int) ^ nat (e - (binade x - 52))"
  have "(2::real) powr (of_int e - 0) = 2 powr (of_int (binade x - 52) - 0) * 2 ^ nat (e - (binade x - 52))"
    by (rule powr_int_diff [OF le])
  then have p: "2 powr of_int e = ulp x * of_int P"
    by (simp add: ulp_def P_def)
  have "x = of_int M * 2 powr of_int e"
    by (simp add: x_def)
  also have "\<dots> = of_int M * (ulp x * of_int P)"
    by (simp only: p)
  also have "\<dots> = of_int (M * P) * ulp x"
    by (simp add: mult.assoc mult.commute)
  finally have xm: "x = of_int (M * P) * ulp x" .
  with ulp_pos [of x] have "x / ulp x = of_int (M * P)"
    by (simp add: field_simps)
  then have "rint (x / ulp x) = M * P"
    by (simp only: rint_of_int)
  with x xm have "round_double x = x"
    by (simp add: round_double_def)
  then show ?thesis by (simp add: x_def)
qed






text \<open>
  Around 50000 the doubles are \<open>1 / 2 ^ 37\<close> apart, and what is nearer to 50000 than a
  quarter of that is rounded to 50000.
\<close>

lemma rint_near: assumes "\<bar>x - of_int k\<bar> < 1 / 2" shows "rint x = k"
proof (cases "of_int k \<le> x")
  case True
  with assms have "\<lfloor>x\<rfloor> = k" by (intro floor_unique) linarith+
  with assms True show ?thesis by (simp add: rint_def Let_def)
next
  case False
  with assms have f: "\<lfloor>x\<rfloor> = k - 1" by (intro floor_unique) (simp, linarith+)
  with assms False have "x - of_int \<lfloor>x\<rfloor> > 1 / 2" by simp
  with f show ?thesis by (simp add: rint_def Let_def)
qed

lemma binade_eqI:
  assumes "2 powr of_int k \<le> \<bar>x\<bar>" and "\<bar>x\<bar> < 2 powr (of_int k + 1)" and "- 1022 \<le> k"
  shows "binade x = k"
proof -
  have "(0::real) < 2 powr of_int k" by simp
  with assms(1) have p: "0 < \<bar>x\<bar>" by linarith
  from assms(1,2) have "\<lfloor>log 2 \<bar>x\<bar>\<rfloor> = k"
    using floor_log_eq_powr_iff [OF p, of 2 k] by simp
  with assms(3) show ?thesis by (simp add: binade_def)
qed

lemma two_powr_neg: "(2::real) powr (- real n) = 1 / 2 ^ n"
  by (simp add: powr_minus powr_realpow divide_inverse)

lemma binade_near_50000:
  assumes "\<bar>x - 50000\<bar> < 1"
  shows "binade x = 15" and "ulp x = 1 / 2 ^ 37"
proof -
  have a: "(2::real) powr of_int 15 = 32768" "(2::real) powr (of_int 15 + 1) = 65536"
    by simp_all
  show b: "binade x = 15"
  proof (rule binade_eqI)
    show "2 powr of_int 15 \<le> \<bar>x\<bar>" unfolding a using assms by linarith
    show "\<bar>x\<bar> < 2 powr (of_int 15 + 1)" unfolding a using assms by linarith
    show "- 1022 \<le> (15::int)" by simp
  qed
  have "of_int (binade x) - 52 = - real 37" by (simp add: b)
  then show "ulp x = 1 / 2 ^ 37"
    unfolding ulp_def by (simp only: two_powr_neg)
qed

lemma round_near_50000:
  assumes "\<bar>y\<bar> < 1 / 2 ^ 38"
  shows "round_double (50000 + y) = 50000"
proof -
  define x where "x = 50000 + y"
  from assms have "\<bar>x - 50000\<bar> < 1" by (simp add: x_def)
  note b = binade_near_50000 [OF this]
  have "x / ulp x = x * 2 ^ 37"
    by (simp only: b(2)) simp
  also have "\<dots> = of_int (50000 * 2 ^ 37) + y * 2 ^ 37"
    by (simp add: x_def algebra_simps)
  finally have q: "x / ulp x = of_int (50000 * 2 ^ 37) + y * 2 ^ 37" .
  have "\<bar>y * 2 ^ 37\<bar> < 1 / 2"
    using assms by (simp add: abs_mult)
  with q have "rint (x / ulp x) = 50000 * 2 ^ 37"
    by (intro rint_near) simp
  moreover have "x \<noteq> 0" using assms by (simp add: x_def)
  ultimately have "round_double x = of_int (50000 * 2 ^ 37) * (1 / 2 ^ 37)"
    by (simp only: round_double_def b(2) if_False)
  then show ?thesis by (simp add: x_def)
qed

lemma round_double_tiny:
  "round_double (1 / 2 ^ 41) = 1 / 2 ^ 41" "round_double (3 / 2 ^ 42) = 3 / 2 ^ 42"
proof -
  have a: "(2::real) powr of_int (- 41) = 1 / 2 ^ 41" "(2::real) powr of_int (- 42) = 1 / 2 ^ 42"
    using two_powr_neg [of 41] two_powr_neg [of 42] by simp_all
  from round_double_scaled [of 1 "- 41"] show "round_double (1 / 2 ^ 41) = 1 / 2 ^ 41"
    unfolding a by simp
  from round_double_scaled [of 3 "- 42"] show "round_double (3 / 2 ^ 42) = 3 / 2 ^ 42"
    unfolding a by simp
qed

lemma round_double_tiny_numeral:
  "round_double (1 / 2199023255552) = 1 / 2199023255552"
  "round_double (3 / 4398046511104) = 3 / 4398046511104"
proof -
  show "round_double (1 / 2199023255552) = 1 / 2199023255552"
    using round_double_tiny(1) by simp
  show "round_double (3 / 4398046511104) = 3 / 4398046511104"
    using round_double_tiny(2) by simp
qed

lemma tiny_below: "round_double (50000 - round_double (1 / 2199023255552)) = 50000"
proof -
  have "round_double (50000 + - (1 / 2199023255552)) = 50000"
    by (rule round_near_50000) simp
  then show ?thesis by (simp add: round_double_tiny_numeral)
qed

lemma tiny_above: "round_double (50000 + round_double (3 / 4398046511104)) = 50000"
proof -
  have "round_double (50000 + 3 / 4398046511104) = 50000"
    by (rule round_near_50000) simp
  then show ?thesis by (simp add: round_double_tiny_numeral)
qed

section \<open>Properties of the scorer\<close>

lemma iloc_last: "xs \<noteq> [] \<Longrightarrow> iloc xs (Suc 0) = Some (last xs)"
  by (cases xs rule: rev_cases) (simp_all add: iloc_def)

lemma iloc_empty: "iloc [] k = None"
  by (auto simp: iloc_def)

subsection \<open>Entry price\<close>

text \<open>
  C4, as stated, has the swing mode take the 50-period average whenever it is available.
  On the retest frame the average 49950 is available and the swing entry price is the last
  close 50000.
\<close>

theorem swing_entry_ignores_average:
  "last retest_primary ''ema_50'' = Some (Num 49950) \<and>
   calculate_entry_price retest_primary LONG SWING = Some (Num 50000)"
  by (simp add: calculate_entry_price_def retest_primary_def candle_def iloc_def)

text \<open>
  C4, amended. With a last close \<open>c\<close> and the \<^verbatim>\<open>ema_50\<close> cell \<open>ema\<close> of the latest row:
  for SCALPING the entry price is the average when it is not NaN and the close is within
  0.2 per cent of it, the distance being taken relative to the close, otherwise the close;
  for INTRADAY it is the average when that is not NaN, otherwise the close; for SWING it
  is always the close.
\<close>

theorem entry_price_by_mode:
  assumes "df \<noteq> []" and "last df ''close'' = Some (Num c)" and "last df ''ema_50'' = Some ema"
  shows "calculate_entry_price df d SCALPING =
           Some (case ema of NaN \<Rightarrow> Num c
                 | Num e \<Rightarrow> if c \<noteq> 0 \<and> \<bar>c - e\<bar> / c \<le> 2 / 1000 then Num e else Num c) \<and>
         calculate_entry_price df d INTRADAY =
           Some (case ema of NaN \<Rightarrow> Num c | Num e \<Rightarrow> Num e) \<and>
         calculate_entry_price df d SWING = Some (Num c)"
  using assms by (cases ema) (simp_all add: calculate_entry_price_def iloc_last notna_def)

theorem entry_price_by_mode_witness:
  "calculate_entry_price retest_primary LONG SCALPING = Some (Num 49950) \<and>
   calculate_entry_price retest_primary LONG INTRADAY = Some (Num 49950) \<and>
   calculate_entry_price retest_primary LONG SWING = Some (Num 50000)"
proof -
  have h: "retest_primary \<noteq> []" "last retest_primary ''close'' = Some (Num 50000)"
    "last retest_primary ''ema_50'' = Some (Num 49950)"
    by (simp_all add: retest_primary_def candle_def)
  from entry_price_by_mode [OF h, of LONG] show ?thesis
    by simp
qed

lemma calculate_entry_price_direction:
  "calculate_entry_price df d md = calculate_entry_price df d' md"
  by (simp add: calculate_entry_price_def)

subsection \<open>Quantity\<close>

text \<open>
  C5, as stated, has a zero stop distance yield a positive minimum quantity. With entry
  and stop-loss both 50000 the quantity is 0.
\<close>

theorem zero_distance_quantity_not_positive:
  "calculate_quantity scenario_config ''BTCUSDT'' (Num 50000) (Num 50000) = Num 0 \<and>
   \<not> flt (Num 0) (calculate_quantity scenario_config ''BTCUSDT'' (Num 50000) (Num 50000))"
  by (simp add: calculate_quantity_def calculate_quantity_body_def try_except_def)

text \<open>
  C5, amended. When the stop distance is zero the body of the quantity calculation returns
  0 without raising, and so does the function; the minimum 0.001 of the handler is not
  used.
\<close>

theorem zero_stop_distance_quantity:
  assumes "feq (fabs (fsub entry sl)) (Num 0)"
  shows "calculate_quantity_body cfg sy entry sl = Some (Num 0) \<and>
         calculate_quantity cfg sy entry sl = Num 0"
  using assms
  by (simp add: calculate_quantity_def calculate_quantity_body_def try_except_def Let_def)

theorem zero_stop_distance_quantity_witness:
  "feq (fabs (fsub (Num 50000) (Num 50000))) (Num 0) \<and>
   calculate_quantity_body scenario_config ''BTCUSDT'' (Num 50000) (Num 50000) = Some (Num 0) \<and>
   calculate_quantity scenario_config ''BTCUSDT'' (Num 50000) (Num 50000) = Num 0"
proof -
  have h: "feq (fabs (fsub (Num 50000) (Num 50000))) (Num 0)"
    by simp
  from zero_stop_distance_quantity [OF h] h show ?thesis
    by blast
qed

text \<open>For float arguments the body returns on every input.\<close>

lemma calculate_quantity_never_raises:
  "\<exists>q. calculate_quantity_body cfg sy entry sl = Some q"
  by (simp add: calculate_quantity_body_def Let_def split: pyfloat.splits)

subsection \<open>Stop-loss and take-profit\<close>

lemma calculate_sl_tp_values:
  assumes "df \<noteq> []" and "last df ''atr'' = Some (Num atr)"
  shows "calculate_sl_tp df (Num e) d mc =
     (if d = LONG
      then (Num (round_double (e - round_double (atr * sl_atr_mult mc))),
            Num (round_double (e + round_double (atr * tp_atr_mult_min mc))))
      else (Num (round_double (e + round_double (atr * sl_atr_mult mc))),
            Num (round_double (e - round_double (atr * tp_atr_mult_min mc)))))"
  using assms
  by (simp add: calculate_sl_tp_def iloc_last try_except_def radd_def rsub_def rmul_def)

lemma calculate_sl_tp_fallback:
  assumes "df = [] \<or> last df ''atr'' = None"
  shows "calculate_sl_tp df entry d mc =
     (rmul entry (Num (round_double (98 / 100))), rmul entry (Num (round_double (102 / 100))))"
  using assms
  by (cases "df = []") (auto simp: calculate_sl_tp_def iloc_last iloc_empty try_except_def)


text \<open>
  The same happens with a positive ATR that is small against the entry price: the ATR of
  the tiny frame is lost in the rounding of the sum and of the difference.
\<close>

lemma tiny_atr_coincides:
  "calculate_sl_tp tiny_primary (Num 50000) LONG (modes SCALPING) = (Num 50000, Num 50000)"
proof -
  have "tiny_primary \<noteq> []" "last tiny_primary ''atr'' = Some (Num (1 / 2199023255552))"
    by (simp_all add: tiny_primary_def candle_def)
  from calculate_sl_tp_values [OF this] show ?thesis
    by (simp add: tiny_below tiny_above)
qed






text \<open>The handler of \<^verbatim>\<open>_calculate_sl_tp\<close> returns the same pair for both directions.\<close>

lemma fallback_ignores_direction:
  "df = [] \<or> last df ''atr'' = None \<Longrightarrow>
   calculate_sl_tp df entry d mode_config = calculate_sl_tp df entry d' mode_config"
  by (simp add: calculate_sl_tp_fallback)

text \<open>
  The keyword arguments that a detector assembles carry the direction of the loop, the
  entry price it was given, the pair of \<^verbatim>\<open>_calculate_sl_tp\<close> and the ATR of the latest
  primary row.
\<close>

lemma scalping_kwargs_fields:
  assumes "scalping_kwargs env sy df latest adx mc tb vb d score entry = Some kw"
  shows "sr_direction kw = d \<and> sr_entry_price kw = entry \<and>
         (sr_stop_loss kw, sr_take_profit kw) = calculate_sl_tp df entry d mc \<and>
         sr_quantity kw = calculate_quantity (config env) sy entry (sr_stop_loss kw) \<and>
         latest ''atr'' = Some (sr_atr_value kw)"
  using assms by (auto simp: scalping_kwargs_def split: prod.splits Option.bind_splits)

lemma intraday_kwargs_fields:
  assumes "intraday_kwargs env sy df latest cl mc tb vb d score entry = Some kw"
  shows "sr_direction kw = d \<and> sr_entry_price kw = entry \<and>
         (sr_stop_loss kw, sr_take_profit kw) = calculate_sl_tp df entry d mc \<and>
         sr_quantity kw = calculate_quantity (config env) sy entry (sr_stop_loss kw) \<and>
         latest ''atr'' = Some (sr_atr_value kw)"
  using assms by (auto simp: intraday_kwargs_def split: prod.splits Option.bind_splits)

lemma swing_kwargs_fields:
  assumes "swing_kwargs env sy df latest cl mc tb vb d score entry = Some kw"
  shows "sr_direction kw = d \<and> sr_entry_price kw = entry \<and>
         (sr_stop_loss kw, sr_take_profit kw) = calculate_sl_tp df entry d mc \<and>
         sr_quantity kw = calculate_quantity (config env) sy entry (sr_stop_loss kw) \<and>
         latest ''atr'' = Some (sr_atr_value kw)"
  using assms by (auto simp: swing_kwargs_def split: prod.splits Option.bind_splits)

subsection \<open>The scoring loop\<close>

text \<open>
  The loop tries LONG first: when LONG's score reaches the minimum, a constructor call
  that the loop reaches is LONG's. (The entry price does not depend on the direction, so a
  falsy entry price for LONG leaves nothing for SHORT either.)
\<close>

lemma direction_loop_first:
  assumes "direction_loop score_of minimum entry_of build [LONG, SHORT] = Some (Some kw)"
    and "\<And>d s e k. build d s e = Some k \<Longrightarrow> sr_direction k = d"
    and "entry_of SHORT = entry_of LONG"
    and "score_of LONG = Some s" and "minimum \<le> s"
  shows "sr_direction kw = LONG"
proof (cases "entry_of LONG")
  case None
  with assms(1,3,4,5) show ?thesis
    by (simp split: option.splits if_splits)
next
  case (Some e)
  show ?thesis
  proof (cases "ftruthy e")
    case True
    with Some assms(1,4,5) obtain k where "build LONG s e = Some k" "kw = k"
      by auto
    with assms(2) show ?thesis by blast
  next
    case False
    with Some assms(1,3,4,5) show ?thesis
      by (simp split: option.splits if_splits)
  qed
qed

text \<open>
  The constructor call of the detectors always raises, so no detector returns a result,
  whatever the frames.
\<close>

lemma construct_None: "construct a = None"
  by (cases a) (auto simp: construct_def try_except_def split: option.splits)

lemma detectors_return_nothing:
  "detect_scalping_signal env sy primary_df confirm_df mode_config = None \<and>
   detect_intraday_signal env sy primary_df confirm_df mode_config = None \<and>
   detect_swing_signal env sy primary_df confirm_df mode_config = None"
  by (simp add: detect_scalping_signal_def detect_intraday_signal_def detect_swing_signal_def
      construct_None)

lemma scenario_long_score:
  "scalping_score scenario_primary (Num 30) (modes SCALPING) (Bias LONG) True LONG = 60"
  by (simp add: scalping_score_def bonus_def fge_def fgt_def detect_rsi_cross_def
      detect_stoch_rsi_signal_def detect_ema_retest_def check_bb_confluence_def
      scenario_primary_def candle_def iloc_def column_def try_except_def)

lemma scenario_attempt_reaches_constructor:
  "scenario_attempt = Some (Some
     \<lparr>sr_symbol = ''BTCUSDT'', sr_mode = SCALPING, sr_direction = LONG,
      sr_entry_price = Num 50000, sr_stop_loss = Num 49900, sr_take_profit = Num 50150,
      sr_quantity = Num 1, sr_score = 60, sr_confidence = LOW,
      sr_trend_note = ''EMA200(5m)long'', sr_adx_value = Num 30,
      sr_volume_boost = Num (1 / 2), sr_atr_value = Num 100, sr_code = ''SIG1'',
      sr_timestamp = 0\<rparr>)"
  by (simp add: scenario_attempt_def scalping_attempt_def get_trend_bias_def
      check_volume_boost_def scalping_score_def scalping_kwargs_def calculate_entry_price_def
      calculate_sl_tp_def radd_def rsub_def rmul_def calculate_quantity_def
      calculate_quantity_body_def
      get_confidence_level_def detect_rsi_cross_def detect_stoch_rsi_signal_def
      detect_ema_retest_def check_bb_confluence_def bonus_def side_of_def iloc_def column_def
      try_except_def notna_def fgt_def fge_def rint_def Let_def scenario_env_def
      scenario_config_def scenario_primary_def scenario_confirm_def candle_def)

text \<open>
  C8. The first direction whose score reaches the mode's minimum should be returned, LONG
  before SHORT. In the scalping scenario LONG scores 60 against the minimum 55 and the loop
  reaches the constructor call with LONG's keyword arguments (entry 50000, stop-loss 49900,
  take-profit 50150, quantity 1); the call lacks \<^verbatim>\<open>primary_tf_data\<close> and
  \<^verbatim>\<open>confirm_tf_data\<close>, raises, and the detector returns \<^verbatim>\<open>None\<close>.
\<close>

theorem long_candidate_not_returned:
  "scalping_score scenario_primary (Num 30) (modes SCALPING) (Bias LONG) True LONG = 60 \<and>
   score_min (modes SCALPING) = 55 \<and>
   map_option (map_option sr_direction) scenario_attempt = Some (Some LONG) \<and>
   detect_scalping_signal scenario_env ''BTCUSDT'' scenario_primary scenario_confirm
     (modes SCALPING) = None"
proof -
  have "map_option (map_option sr_direction) scenario_attempt = Some (Some LONG)"
    by (simp add: scenario_attempt_reaches_constructor)
  moreover have "score_min (modes SCALPING) = 55"
    by simp
  moreover have "detect_scalping_signal scenario_env ''BTCUSDT'' scenario_primary
      scenario_confirm (modes SCALPING) = None"
    by (simp add: detect_scalping_signal_def construct_None)
  ultimately show ?thesis
    using scenario_long_score by blast
qed

end
